theory Spec2Isabelle
  imports Complex_Main "HOL-Library.Word"
begin

section \<open>Python values used by \<open>vrchat_translator.py\<close>\<close>

text \<open>
  A Python \<open>str\<close> is a sequence of Unicode code points, so it is modelled as a list of
  code-point numbers; \<open>len\<close> is \<open>length\<close> and truthiness (\<open>if text:\<close>) is \<open>text \<noteq> []\<close>.
  A \<open>bytes\<close> object is a list of 8-bit words.
\<close>

type_synonym pystr = "nat list"
type_synonym byte = "8 word"
type_synonym pybytes = "byte list"

definition ascii :: "string \<Rightarrow> pystr" where
  "ascii s = map (\<lambda>c. of_char c) s"

text \<open>
  The code points that \<open>str.strip()\<close> (no argument) removes: CPython's
  \<open>_PyUnicode_IsWhitespace\<close>.
\<close>

definition isspace :: "nat \<Rightarrow> bool" where
  "isspace c \<longleftrightarrow>
     (0x09 \<le> c \<and> c \<le> 0x0D) \<or> (0x1C \<le> c \<and> c \<le> 0x20) \<or> c = 0x85 \<or> c = 0xA0 \<or>
     c = 0x1680 \<or> (0x2000 \<le> c \<and> c \<le> 0x200A) \<or> c = 0x2028 \<or> c = 0x2029 \<or>
     c = 0x202F \<or> c = 0x205F \<or> c = 0x3000"

definition strip :: "pystr \<Rightarrow> pystr" where
  "strip s = rev (dropWhile isspace (rev (dropWhile isspace s)))"

text \<open>\<open>sep.join(lines)\<close>.\<close>

fun join :: "pystr \<Rightarrow> pystr list \<Rightarrow> pystr" where
  "join sep [] = []"
| "join sep [x] = x"
| "join sep (x # y # ys) = x @ sep @ join sep (y # ys)"

text \<open>
  A Python \<open>dict\<close> iterates in insertion order, and \<open>d[k] = v\<close> on a key already present
  replaces the value in place: an association list with that update.
\<close>

type_synonym ('k, 'v) pydict = "('k \<times> 'v) list"

fun dict_setitem :: "('k, 'v) pydict \<Rightarrow> 'k \<Rightarrow> 'v \<Rightarrow> ('k, 'v) pydict" where
  "dict_setitem [] k v = [(k, v)]"
| "dict_setitem ((k', v') # d) k v =
     (if k' = k then (k', v) # d else (k', v') # dict_setitem d k v)"

text \<open>
  \<open>np.frombuffer(audio_bytes, dtype=np.int16)\<close>: little-endian signed 16-bit samples;
  it raises \<open>ValueError\<close> when the buffer size is not a multiple of the element size.
  \<open>.astype(np.float32) / 32768.0\<close> is exact on every 16-bit sample, so the waveform is
  the list of real numbers \<open>sample / 32768\<close>.
\<close>

definition int16_le :: "byte \<Rightarrow> byte \<Rightarrow> int" where
  "int16_le lo hi = (let u = uint lo + 256 * uint hi in if u < 32768 then u else u - 65536)"

fun samples :: "pybytes \<Rightarrow> int list" where
  "samples (lo # hi # bs) = int16_le lo hi # samples bs"
| "samples _ = []"

definition frombuffer :: "pybytes \<Rightarrow> int list option" where
  "frombuffer bs = (if odd (length bs) then None else Some (samples bs))"

definition waveform :: "int list \<Rightarrow> real list" where
  "waveform xs = map (\<lambda>x. real_of_int x / 32768) xs"

section \<open>Configuration, effects and the translator object\<close>

text \<open>
  The settings \<open>__init__\<close> reads from the environment that the modelled methods use.
  \<open>start_recording\<close> opens the stream with \<open>CHANNELS\<close> channels of 16-bit samples at
  \<open>RATE\<close> frames a second, so every frame the stream delivers is \<open>2 * CHANNELS\<close> bytes.
\<close>

record config =
  CHANNELS :: int
  RATE :: int
  source_language :: pystr
  target_languages :: "pystr list"
  model_name :: pystr
  hotkey_char :: pystr

datatype log_level = INFO | WARNING | ERROR

text \<open>One constructor per \<open>self.logger\<close> call of the modelled methods, with the values
  its f-string interpolates.\<close>

datatype log_msg =
    RecordingStarted
  | StartRecordingFailed
  | RecordAudioFailed
  | RecordingStopped
  | NoAudioData
  | StopRecordingFailed
  | Transcribing
  | RecordingTooShort
  | AudioLength nat
  | RawTranscript pystr
  | CorrectedTranscript pystr
  | TranscribeFailed
  | Correcting
  | CorrectionNoChange
  | CorrectionDone pystr pystr
  | CorrectionFailed
  | CorrectionFallback
  | Translating pystr
  | TranslationResult pystr pystr
  | TranslationFailed pystr
  | FormattedOutput pystr
  | NothingToSend
  | SentToVRChat pystr
  | SendFailed
  | HotkeyDown
  | HotkeyUp

text \<open>
  The two requests sent through \<open>openai_client.chat.completions.create\<close>: the prompt of
  \<open>semantic_correction\<close> is fixed by the model name and the text, the prompt of
  \<open>translate_text\<close> by the model name, the source language, the target language and the
  text.
\<close>

datatype chat_request =
    CorrectionRequest pystr pystr
  | TranslationRequest pystr pystr pystr pystr

datatype osc_arg = OscStr pystr | OscBool bool

text \<open>Every effect outside the object, in the order the program performs it.\<close>

datatype event =
    is_Log: Log log_level log_msg
  | is_StreamOpen: StreamOpen
  | is_ThreadStart: ThreadStart
  | is_StreamClose: StreamClose
  | is_SttCall: SttCall "real list" pystr
  | is_ChatCall: ChatCall chat_request
  | is_OscSend: OscSend pystr "osc_arg list"

text \<open>What the outside world answers.\<close>

datatype start_outcome = OpenRaises | DeviceInfoRaises | ThreadStarts
datatype stt_outcome = SttRaises | SttReturns "pystr option"
datatype chat_outcome = ChatRaises | ChatReturns pystr

text \<open>
  The answers one job meets: of \<open>model.transcribe\<close>, of the correction request, of the
  \<open>i\<close>-th translation request of the job, and whether \<open>send_message\<close> returns.
\<close>

record job_env =
  stt_result :: stt_outcome
  correction_result :: chat_outcome
  translation_result :: "nat \<Rightarrow> chat_outcome"
  osc_ok :: bool

datatype stream_state = StreamActive | StreamClosed

text \<open>
  The fields of \<open>VRChatTranslator\<close> that the modelled methods read or write. An item of
  the queue is a recording (\<open>Some frames\<close>) or the exit signal \<open>None\<close>.
\<close>

record translator =
  is_recording :: bool
  audio_data :: "pybytes list option"
  stream :: "stream_state option"
  hotkey_pressed :: bool
  translation_queue :: "pybytes list option list"
  is_translating :: bool
  trace :: "event list"

definition emit :: "event \<Rightarrow> translator \<Rightarrow> translator" where
  "emit e st = st\<lparr>trace := trace st @ [e]\<rparr>"

definition logger :: "log_level \<Rightarrow> log_msg \<Rightarrow> translator \<Rightarrow> translator" where
  "logger lv m st = emit (Log lv m) st"

definition stt_calls :: "event list \<Rightarrow> event list" where
  "stt_calls tr = filter is_SttCall tr"

definition chat_calls :: "event list \<Rightarrow> event list" where
  "chat_calls tr = filter is_ChatCall tr"

definition osc_sends :: "event list \<Rightarrow> event list" where
  "osc_sends tr = filter is_OscSend tr"

definition sessions_started :: "event list \<Rightarrow> nat" where
  "sessions_started tr = length (filter is_ThreadStart tr)"

section \<open>Recording: the methods the key listener calls\<close>

text \<open>
  \<open>start_recording\<close>. The outcome says where the \<open>try\<close> block stops: \<open>audio.open\<close>
  raises, \<open>get_device_info_by_index\<close> raises after the stream was opened, or the
  recording thread is started.
\<close>

definition start_recording :: "start_outcome \<Rightarrow> translator \<Rightarrow> translator" where
  "start_recording outcome st =
     (if is_recording st then st
      else
        let st1 = st\<lparr>is_recording := True, audio_data := Some []\<rparr> in
        case outcome of
          OpenRaises \<Rightarrow>
            (logger ERROR StartRecordingFailed st1)\<lparr>is_recording := False\<rparr>
        | DeviceInfoRaises \<Rightarrow>
            (logger ERROR StartRecordingFailed
               (emit StreamOpen (st1\<lparr>stream := Some StreamActive\<rparr>)))\<lparr>is_recording := False\<rparr>
        | ThreadStarts \<Rightarrow>
            emit ThreadStart
              (logger INFO RecordingStarted
                (emit StreamOpen (st1\<lparr>stream := Some StreamActive\<rparr>))))"

text \<open>
  One turn of the loop of \<open>record_audio\<close>, run by the recording thread: \<open>stream.read\<close>
  returns a chunk (\<open>Some data\<close>) or raises (\<open>None\<close>), which ends the thread with an
  error entry. The result says whether the loop goes on.
\<close>

definition record_audio :: "pybytes option \<Rightarrow> translator \<Rightarrow> bool \<times> translator" where
  "record_audio chunk st =
     (if is_recording st then
        (case (chunk, audio_data st) of
           (Some data, Some frames) \<Rightarrow> (True, st\<lparr>audio_data := Some (frames @ [data])\<rparr>)
         | _ \<Rightarrow> (False, logger ERROR RecordAudioFailed st))
      else (False, st))"

text \<open>
  \<open>stop_recording\<close>; \<open>close_ok\<close> says whether \<open>stop_stream()\<close> and \<open>close()\<close> return.
\<close>

definition stop_recording :: "bool \<Rightarrow> translator \<Rightarrow> translator" where
  "stop_recording close_ok st =
     (if \<not> is_recording st then st
      else
        let st1 = st\<lparr>is_recording := False\<rparr> in
        if stream st1 \<noteq> None \<and> \<not> close_ok then logger ERROR StopRecordingFailed st1
        else
          let st2 = (if stream st1 \<noteq> None
                     then emit StreamClose (st1\<lparr>stream := Some StreamClosed\<rparr>) else st1);
              st3 = logger INFO RecordingStopped st2
          in case audio_data st3 of
               Some (f # fs) \<Rightarrow>
                 st3\<lparr>translation_queue := translation_queue st3 @ [Some (f # fs)],
                     audio_data := Some []\<rparr>
             | _ \<Rightarrow> logger ERROR NoAudioData st3)"

text \<open>
  A key event of the listener carries a \<open>KeyCode\<close>, whose \<open>char\<close> is a string or
  \<open>None\<close>, or a special key, which has no \<open>char\<close> attribute. \<open>str.lower\<close> follows the
  Unicode tables; it is a parameter \<open>lower\<close> of the model.
\<close>

datatype key = KeyCode "pystr option" | SpecialKey

definition is_hotkey :: "(pystr \<Rightarrow> pystr) \<Rightarrow> config \<Rightarrow> key \<Rightarrow> bool" where
  "is_hotkey lower cfg k =
     (case k of
        KeyCode (Some c) \<Rightarrow> c \<noteq> [] \<and> lower c = hotkey_char cfg
      | _ \<Rightarrow> False)"

definition on_press ::
  "(pystr \<Rightarrow> pystr) \<Rightarrow> config \<Rightarrow> key \<Rightarrow> start_outcome \<Rightarrow> translator \<Rightarrow> translator" where
  "on_press lower cfg k outcome st =
     (if is_hotkey lower cfg k then
        let st1 = st\<lparr>hotkey_pressed := True\<rparr> in
        if \<not> is_recording st1 \<and> \<not> is_translating st1
        then start_recording outcome (logger INFO HotkeyDown st1)
        else st1
      else st)"

definition on_release ::
  "(pystr \<Rightarrow> pystr) \<Rightarrow> config \<Rightarrow> key \<Rightarrow> bool \<Rightarrow> translator \<Rightarrow> translator" where
  "on_release lower cfg k close_ok st =
     (if is_hotkey lower cfg k then
        let st1 = st\<lparr>hotkey_pressed := False\<rparr> in
        if is_recording st1
        then stop_recording close_ok (logger INFO HotkeyUp st1)
        else st1
      else st)"

text \<open>
  The listener of \<open>run\<close> delivers key events one at a time, each with the answer of the
  audio device it meets.
\<close>

datatype key_event = Press key start_outcome | Release key bool

fun listener ::
  "(pystr \<Rightarrow> pystr) \<Rightarrow> config \<Rightarrow> key_event list \<Rightarrow> translator \<Rightarrow> translator" where
  "listener lower cfg [] st = st"
| "listener lower cfg (Press k outcome # evs) st =
     listener lower cfg evs (on_press lower cfg k outcome st)"
| "listener lower cfg (Release k close_ok # evs) st =
     listener lower cfg evs (on_release lower cfg k close_ok st)"

fun is_hotkey_release :: "(pystr \<Rightarrow> pystr) \<Rightarrow> config \<Rightarrow> key_event \<Rightarrow> bool" where
  "is_hotkey_release lower cfg (Release k close_ok) = is_hotkey lower cfg k"
| "is_hotkey_release lower cfg (Press k outcome) = False"

section \<open>The pipeline: the methods the worker thread calls\<close>

text \<open>
  \<open>semantic_correction\<close>. Everything in its \<open>try\<close> block that can raise (the request, a
  reply without choices or content) is the outcome \<open>ChatRaises\<close>.
\<close>

definition semantic_correction ::
  "config \<Rightarrow> chat_outcome \<Rightarrow> pystr \<Rightarrow> translator \<Rightarrow> pystr \<times> translator" where
  "semantic_correction cfg reply text st =
     (if text = [] \<or> length (strip text) < 2 then (text, st)
      else
        let st1 = emit (ChatCall (CorrectionRequest (model_name cfg) text))
                    (logger INFO Correcting st) in
        case reply of
          ChatRaises \<Rightarrow>
            (text, logger INFO CorrectionFallback (logger ERROR CorrectionFailed st1))
        | ChatReturns content \<Rightarrow>
            let corrected_text = strip content in
            if corrected_text = [] \<or> corrected_text = text
            then (text, logger INFO CorrectionNoChange st1)
            else (corrected_text, logger INFO (CorrectionDone text corrected_text) st1))"

text \<open>
  \<open>transcribe_audio\<close>. \<open>len(audio_np) < self.RATE * 0.5\<close> compares an integer with
  half the sample rate, exactly: \<open>2 * len < RATE\<close>.
\<close>

definition transcribe_audio ::
  "config \<Rightarrow> job_env \<Rightarrow> pybytes list \<Rightarrow> translator \<Rightarrow> pystr option \<times> translator" where
  "transcribe_audio cfg env audio st =
     (let st1 = logger INFO Transcribing st in
      case frombuffer (concat audio) of
        None \<Rightarrow> (None, logger ERROR TranscribeFailed st1)
      | Some audio_np \<Rightarrow>
          if 2 * int (length audio_np) < RATE cfg
          then (None, logger WARNING RecordingTooShort st1)
          else
            let st2 = emit (SttCall (waveform audio_np) (source_language cfg))
                        (logger INFO (AudioLength (length audio_np)) st1) in
            case stt_result env of
              SttRaises \<Rightarrow> (None, logger ERROR TranscribeFailed st2)
            | SttReturns r \<Rightarrow>
                let original_text = strip (case r of None \<Rightarrow> [] | Some t \<Rightarrow> t);
                    st3 = logger INFO (RawTranscript original_text) st2
                in if original_text \<noteq> [] then
                     let (corrected_text, st4) =
                           semantic_correction cfg (correction_result env) original_text st3
                     in (Some corrected_text, logger INFO (CorrectedTranscript corrected_text) st4)
                   else (None, st3))"

text \<open>\<open>translate_text\<close>, with the outcome of its request.\<close>

definition translate_text ::
  "config \<Rightarrow> chat_outcome \<Rightarrow> pystr \<Rightarrow> pystr \<Rightarrow> translator \<Rightarrow> pystr \<times> translator" where
  "translate_text cfg reply text target_language st =
     (if text = [] then ([], st)
      else
        let st1 = emit (ChatCall (TranslationRequest (model_name cfg) (source_language cfg)
                                    target_language text))
                    (logger INFO (Translating target_language) st) in
        case reply of
          ChatRaises \<Rightarrow> ([], logger ERROR (TranslationFailed target_language) st1)
        | ChatReturns content \<Rightarrow>
            let translated_text = strip content in
            (translated_text,
             logger INFO (TranslationResult target_language translated_text) st1))"

text \<open>
  The loop \<open>for lang in self.target_languages\<close> of \<open>process_translation_queue\<close>; \<open>i\<close>
  counts the requests already made for the job.
\<close>

fun translate_languages ::
  "config \<Rightarrow> (nat \<Rightarrow> chat_outcome) \<Rightarrow> pystr \<Rightarrow> nat \<Rightarrow> pystr list \<Rightarrow>
   (pystr, pystr) pydict \<Rightarrow> translator \<Rightarrow> (pystr, pystr) pydict \<times> translator" where
  "translate_languages cfg replies text i [] translations st = (translations, st)"
| "translate_languages cfg replies text i (lang # langs) translations st =
     (let (translated_text, st1) = translate_text cfg (replies i) text lang st;
          translations1 = (if translated_text \<noteq> []
                           then dict_setitem translations lang translated_text
                           else translations)
      in translate_languages cfg replies text (Suc i) langs translations1 st1)"

definition format_output ::
  "(pystr, pystr) pydict \<Rightarrow> pystr \<Rightarrow> translator \<Rightarrow> pystr \<times> translator" where
  "format_output translations original_text st =
     (let lines = filter (\<lambda>text. text \<noteq> []) (map snd translations)
                  @ (if original_text \<noteq> [] then [original_text] else []);
          output = join [10] lines
      in (output, logger INFO (FormattedOutput output) st))"

definition chatbox_input :: pystr where
  "chatbox_input = ascii ''/chatbox/input''"

text \<open>\<open>send_to_vrchat\<close>; \<open>send_ok\<close> says whether \<open>send_message\<close> returns.\<close>

definition send_to_vrchat :: "bool \<Rightarrow> pystr \<Rightarrow> translator \<Rightarrow> translator" where
  "send_to_vrchat send_ok text st =
     (if text = [] then logger WARNING NothingToSend st
      else
        let st1 = emit (OscSend chatbox_input [OscStr text, OscBool True, OscBool False]) st in
        if send_ok then logger INFO (SentToVRChat text) st1
        else logger ERROR SendFailed st1)"

text \<open>
  The block \<open>if original_text: ...\<close> of \<open>process_translation_queue\<close>: translate to every
  target language, format, send.
\<close>

definition translate_and_send ::
  "config \<Rightarrow> job_env \<Rightarrow> pystr option \<Rightarrow> translator \<Rightarrow> translator" where
  "translate_and_send cfg env original_text st =
     (case original_text of
        None \<Rightarrow> st
      | Some text \<Rightarrow>
          if text = [] then st
          else
            let (translations, st1) =
                  translate_languages cfg (translation_result env) text 0
                    (target_languages cfg) [] st;
                (output_text, st2) = format_output translations text st1
            in send_to_vrchat (osc_ok env) output_text st2)"

text \<open>
  The body of the worker's loop for a dequeued recording. Every method it calls catches
  its own exceptions, so the loop's \<open>except Exception\<close> branch has nothing to catch;
  \<open>task_done()\<close> is called once for each recording taken from the queue.
\<close>

definition process_job :: "config \<Rightarrow> job_env \<Rightarrow> pybytes list \<Rightarrow> translator \<Rightarrow> translator" where
  "process_job cfg env audio st =
     (let st1 = st\<lparr>is_translating := True\<rparr>;
          (original_text, st2) = transcribe_audio cfg env audio st1;
          st3 = translate_and_send cfg env original_text st2
      in st3\<lparr>is_translating := False\<rparr>)"

text \<open>
  \<open>process_translation_queue\<close>, the worker's loop, over the queue as it stands: an empty
  queue is \<open>queue.Empty\<close> after the timeout and the loop polls again, the exit signal
  breaks the loop, a recording is processed with the answers \<open>envs n\<close> of the \<open>n\<close>-th job.
  The value \<open>None\<close> is a loop that never returns.
\<close>

partial_function (option) process_translation_queue ::
  "config \<Rightarrow> (nat \<Rightarrow> job_env) \<Rightarrow> nat \<Rightarrow> translator \<Rightarrow> translator option" where
  "process_translation_queue cfg envs n st =
     (case translation_queue st of
        [] \<Rightarrow> process_translation_queue cfg envs n st
      | None # q \<Rightarrow> Some (st\<lparr>translation_queue := q\<rparr>)
      | Some audio # q \<Rightarrow>
          process_translation_queue cfg envs (Suc n)
            (process_job cfg (envs n) audio (st\<lparr>translation_queue := q\<rparr>)))"

text \<open>\<open>cleanup\<close> puts the exit signal on the queue.\<close>

definition cleanup :: "translator \<Rightarrow> translator" where
  "cleanup st = st\<lparr>translation_queue := translation_queue st @ [None]\<rparr>"

section \<open>Results and effects of the pipeline methods\<close>

text \<open>The object as \<open>__init__\<close> leaves it.\<close>

definition new_translator :: translator where
  "new_translator = \<lparr>is_recording = False, audio_data = None, stream = None,
     hotkey_pressed = False, translation_queue = [], is_translating = False, trace = []\<rparr>"

text \<open>What \<open>translate_text\<close> returns for a non-empty text, given the reply to its request.\<close>

definition reply_text :: "chat_outcome \<Rightarrow> pystr" where
  "reply_text reply = (case reply of ChatRaises \<Rightarrow> [] | ChatReturns content \<Rightarrow> strip content)"

text \<open>The effects of one call of a pipeline method, and its result: the call run on the
  fresh object, whose trace starts empty.\<close>

definition correction_events :: "config \<Rightarrow> chat_outcome \<Rightarrow> pystr \<Rightarrow> event list" where
  "correction_events cfg reply text = trace (snd (semantic_correction cfg reply text new_translator))"

definition transcription_events :: "config \<Rightarrow> job_env \<Rightarrow> pybytes list \<Rightarrow> event list" where
  "transcription_events cfg env audio = trace (snd (transcribe_audio cfg env audio new_translator))"

definition transcription :: "config \<Rightarrow> job_env \<Rightarrow> pybytes list \<Rightarrow> pystr option" where
  "transcription cfg env audio = fst (transcribe_audio cfg env audio new_translator)"

definition translation_events :: "config \<Rightarrow> chat_outcome \<Rightarrow> pystr \<Rightarrow> pystr \<Rightarrow> event list" where
  "translation_events cfg reply text lang = trace (snd (translate_text cfg reply text lang new_translator))"

text \<open>The dictionary and the effects of the loop over the target languages.\<close>

fun translations_of ::
  "(nat \<Rightarrow> chat_outcome) \<Rightarrow> nat \<Rightarrow> pystr list \<Rightarrow> (pystr, pystr) pydict \<Rightarrow> (pystr, pystr) pydict" where
  "translations_of replies i [] d = d"
| "translations_of replies i (lang # langs) d =
     translations_of replies (Suc i) langs
       (if reply_text (replies i) \<noteq> [] then dict_setitem d lang (reply_text (replies i)) else d)"

fun fanout_events ::
  "config \<Rightarrow> (nat \<Rightarrow> chat_outcome) \<Rightarrow> pystr \<Rightarrow> nat \<Rightarrow> pystr list \<Rightarrow> event list" where
  "fanout_events cfg replies text i [] = []"
| "fanout_events cfg replies text i (lang # langs) =
     translation_events cfg (replies i) text lang @ fanout_events cfg replies text (Suc i) langs"

text \<open>The effects of sending, of the block after transcription, and the text it formats.\<close>

definition send_events :: "bool \<Rightarrow> pystr \<Rightarrow> event list" where
  "send_events send_ok text = trace (send_to_vrchat send_ok text new_translator)"

definition dispatch_events :: "config \<Rightarrow> job_env \<Rightarrow> pystr option \<Rightarrow> event list" where
  "dispatch_events cfg env original_text =
     trace (translate_and_send cfg env original_text new_translator)"

definition output_message :: "config \<Rightarrow> job_env \<Rightarrow> pystr \<Rightarrow> pystr" where
  "output_message cfg env text =
     fst (format_output
            (fst (translate_languages cfg (translation_result env) text 0 (target_languages cfg) []
                    new_translator))
            text new_translator)"

text \<open>The defaults of \<open>__init__\<close> when the environment sets nothing.\<close>

definition default_config :: config where
  "default_config = \<lparr>CHANNELS = 1, RATE = 16000, source_language = ascii ''zh'',
     target_languages = [ascii ''en'', ascii ''ja'', ascii ''ko''],
     model_name = ascii ''deepseek-chat'', hotkey_char = ascii ''k''\<rparr>"

text \<open>\<open>str.lower\<close> on ASCII text.\<close>

definition ascii_lower :: "pystr \<Rightarrow> pystr" where
  "ascii_lower s = map (\<lambda>c. if 65 \<le> c \<and> c \<le> 90 then c + 32 else c) s"

text \<open>
  Processing recordings one after the other, in the order given: each job starts from
  the state the job before it left.
\<close>

fun run_jobs ::
  "config \<Rightarrow> (nat \<Rightarrow> job_env) \<Rightarrow> nat \<Rightarrow> pybytes list list \<Rightarrow> translator \<Rightarrow> translator" where
  "run_jobs cfg envs n [] st = st"
| "run_jobs cfg envs n (audio # rest) st =
     run_jobs cfg envs (Suc n) rest (process_job cfg (envs n) audio st)"

text \<open>
  The length in seconds of a recording: its bytes, \<open>2 * CHANNELS\<close> to a frame, \<open>RATE\<close>
  frames to a second.
\<close>

definition duration_seconds :: "config \<Rightarrow> pybytes list \<Rightarrow> real" where
  "duration_seconds cfg audio =
     real (length (concat audio)) / (2 * real_of_int (CHANNELS cfg) * real_of_int (RATE cfg))"

text \<open>
  Answers used to run the pipeline on concrete recordings.
\<close>

definition quiet_env :: job_env where
  "quiet_env = \<lparr>stt_result = SttReturns (Some (ascii ''  '')), correction_result = ChatRaises,
     translation_result = (\<lambda>i. ChatRaises), osc_ok = True\<rparr>"

definition failing_refiner_env :: job_env where
  "failing_refiner_env = \<lparr>stt_result = SttReturns (Some (ascii '' hello '')),
     correction_result = ChatRaises,
     translation_result = (\<lambda>i. ChatRaises), osc_ok = True\<rparr>"

text \<open>
  The value the \<open>i\<close>-th configured target language contributes to a job: what
  \<open>translate_text\<close> returns for it (empty when the request raised or answered nothing).
\<close>

definition translation_value :: "config \<Rightarrow> job_env \<Rightarrow> pystr \<Rightarrow> nat \<Rightarrow> pystr" where
  "translation_value cfg env text i =
     fst (translate_text cfg (translation_result env i) text (target_languages cfg ! i)
            new_translator)"

text \<open>
  The configuration and the answers of the end-to-end scenario: source \<open>zh\<close>, targets
  \<open>en\<close> and \<open>ja\<close>, a transcript that refinement returns unchanged, two translations.
  The sample rate is 2, so that a recording of one sample is long enough to transcribe.
\<close>

definition zh_config :: config where
  "zh_config = \<lparr>CHANNELS = 1, RATE = 2, source_language = ascii ''zh'',
     target_languages = [ascii ''en'', ascii ''ja''],
     model_name = ascii ''deepseek-chat'', hotkey_char = ascii ''k''\<rparr>"

definition hello_world_env :: job_env where
  "hello_world_env = \<lparr>stt_result = SttReturns (Some [0x4F60, 0x597D, 0x4E16, 0x754C]),
     correction_result = ChatReturns [0x4F60, 0x597D, 0x4E16, 0x754C],
     translation_result =
       (\<lambda>i. if i = 0 then ChatReturns (ascii ''Hello world'')
            else ChatReturns [0x3053, 0x3093, 0x306B, 0x3061, 0x306F, 0x4E16, 0x754C]),
     osc_ok = True\<rparr>"

text \<open>
  The scenario with one failing language: the request for \<open>ja\<close> raises; and the same
  scenario with every request answered.
\<close>

definition ja_fails_env :: job_env where
  "ja_fails_env = \<lparr>stt_result = SttReturns (Some [0x4F60, 0x597D]),
     correction_result = ChatRaises,
     translation_result = (\<lambda>i. if i = 0 then ChatReturns (ascii ''Hello'') else ChatRaises),
     osc_ok = True\<rparr>"

definition all_ok_env :: job_env where
  "all_ok_env = \<lparr>stt_result = SttReturns (Some [0x4F60, 0x597D]),
     correction_result = ChatRaises,
     translation_result = (\<lambda>i. ChatReturns (ascii ''Hello'')),
     osc_ok = True\<rparr>"

text \<open>
  The effects of one job.
\<close>

definition job_events :: "config \<Rightarrow> job_env \<Rightarrow> pybytes list \<Rightarrow> event list" where
  "job_events cfg env audio = trace (process_job cfg env audio new_translator)"

text \<open>
  A stereo configuration at the default sample rate, and a recording of four chunks of
  1024 stereo frames each: 4096 frames, about a quarter of a second.
\<close>

definition stereo_config :: config where
  "stereo_config = \<lparr>CHANNELS = 2, RATE = 16000, source_language = ascii ''zh'',
     target_languages = [ascii ''en'', ascii ''ja''],
     model_name = ascii ''deepseek-chat'', hotkey_char = ascii ''k''\<rparr>"

definition stereo_quarter_second :: "pybytes list" where
  "stereo_quarter_second =
     [replicate 4096 0, replicate 4096 0, replicate 4096 0, replicate 4096 0]"

text \<open>
  A configuration that names \<open>en\<close> twice, with every request answered, and with the
  request for \<open>ja\<close> raising.
\<close>

definition repeated_language_config :: config where
  "repeated_language_config =
     zh_config\<lparr>target_languages := [ascii ''en'', ascii ''ja'', ascii ''en'']\<rparr>"

definition repeated_language_env :: job_env where
  "repeated_language_env = \<lparr>stt_result = SttReturns (Some (ascii ''hi'')),
     correction_result = ChatRaises,
     translation_result =
       (\<lambda>i. if i = 0 then ChatReturns (ascii ''A1'')
            else if i = 1 then ChatReturns (ascii ''B'')
            else ChatReturns (ascii ''A2'')),
     osc_ok = True\<rparr>"

definition repeated_language_ja_fails_env :: job_env where
  "repeated_language_ja_fails_env = \<lparr>stt_result = SttReturns (Some (ascii ''hi'')),
     correction_result = ChatRaises,
     translation_result =
       (\<lambda>i. if i = 0 then ChatReturns (ascii ''A1'')
            else if i = 1 then ChatRaises
            else ChatReturns (ascii ''A2'')),
     osc_ok = True\<rparr>"

section \<open>Auxiliary facts\<close>

lemma length_strip: "length (strip s) \<le> length s"
proof -
  have "length (strip s) = length (dropWhile isspace (rev (dropWhile isspace s)))"
    by (simp add: strip_def)
  also have "\<dots> \<le> length (rev (dropWhile isspace s))" by (rule length_dropWhile_le)
  also have "\<dots> \<le> length s" by (simp add: length_dropWhile_le)
  finally show ?thesis .
qed

lemma strip_Nil: "strip [] = []" by (simp add: strip_def)

lemma length_samples: "length (samples bs) = length bs div 2"
  by (induction bs rule: samples.induct) auto

lemma semantic_correction_frame:
  "semantic_correction cfg reply text st =
     (fst (semantic_correction cfg reply text new_translator),
      st\<lparr>trace := trace st @ correction_events cfg reply text\<rparr>)"
  by (simp add: semantic_correction_def correction_events_def new_translator_def logger_def emit_def Let_def
           split: chat_outcome.split)

lemma transcribe_audio_frame:
  "transcribe_audio cfg env audio st =
     (transcription cfg env audio,
      st\<lparr>trace := trace st @ transcription_events cfg env audio\<rparr>)"
  unfolding transcribe_audio_def transcription_def transcription_events_def
  apply (subst semantic_correction_frame)
  apply (subst (2 3) semantic_correction_frame)
  by (simp add: new_translator_def logger_def emit_def Let_def
           split: chat_outcome.split option.split stt_outcome.split)

lemma translate_text_frame:
  "translate_text cfg reply text lang st =
     (if text = [] then [] else reply_text reply,
      st\<lparr>trace := trace st @ translation_events cfg reply text lang\<rparr>)"
  by (simp add: translate_text_def translation_events_def new_translator_def logger_def emit_def Let_def reply_text_def
           split: chat_outcome.split)

lemma translate_languages_frame:
  "text \<noteq> [] \<Longrightarrow>
   translate_languages cfg replies text i langs d st =
     (translations_of replies i langs d,
      st\<lparr>trace := trace st @ fanout_events cfg replies text i langs\<rparr>)"
  by (induction langs arbitrary: i d st) (simp_all add: translate_text_frame)

lemma dict_setitem_fresh: "k \<notin> fst ` set d \<Longrightarrow> dict_setitem d k v = d @ [(k, v)]"
  by (induction d) auto

lemma map_of_dict_setitem: "map_of (dict_setitem d k v) = (map_of d)(k \<mapsto> v)"
  by (induction d) auto

lemma translations_of_distinct:
  "distinct langs \<Longrightarrow> set langs \<inter> fst ` set d = {} \<Longrightarrow>
   map snd (translations_of replies i langs d) =
     map snd d @ filter (\<lambda>t. t \<noteq> []) (map (\<lambda>j. reply_text (replies j)) [i..<i + length langs])"
proof (induction langs arbitrary: i d)
  case Nil
  then show ?case by simp
next
  case (Cons l ls)
  have fresh: "l \<notin> fst ` set d" using Cons.prems by auto
  have up: "[i..<i + length (l # ls)] = i # [Suc i..<Suc i + length ls]"
    by (subst upt_rec) simp
  show ?case
  proof (cases "reply_text (replies i) = []")
    case True
    have "set ls \<inter> fst ` set d = {}" using Cons.prems by auto
    with Cons.IH [of d "Suc i"] Cons.prems True up show ?thesis by simp
  next
    case False
    let ?d = "d @ [(l, reply_text (replies i))]"
    have "set ls \<inter> fst ` set ?d = {}" using Cons.prems by auto
    with Cons.IH [of ?d "Suc i"] Cons.prems False up fresh show ?thesis
      by (simp add: dict_setitem_fresh)
  qed
qed

lemma translations_of_other:
  "(\<forall>j<length langs. langs ! j \<noteq> l \<longrightarrow> replies' (i + j) = replies (i + j)) \<Longrightarrow>
   k \<noteq> l \<Longrightarrow> map_of d' k = map_of d k \<Longrightarrow>
   map_of (translations_of replies' i langs d') k = map_of (translations_of replies i langs d) k"
proof (induction langs arbitrary: i d d')
  case Nil
  then show ?case by simp
next
  case (Cons h hs)
  have tl: "\<forall>j<length hs. hs ! j \<noteq> l \<longrightarrow> replies' (Suc i + j) = replies (Suc i + j)"
    using Cons.prems(1) by fastforce
  show ?case
  proof (cases "h = l")
    case True
    show ?thesis
      using Cons.prems(2,3) True
      by (auto intro!: Cons.IH [OF tl] simp: map_of_dict_setitem)
  next
    case False
    then have "replies' i = replies i" using Cons.prems(1) by fastforce
    then show ?thesis
      using Cons.prems(2,3)
      by (auto intro!: Cons.IH [OF tl] simp: map_of_dict_setitem)
  qed
qed

lemma translations_of_failed:
  "(\<forall>j<length langs. langs ! j = l \<longrightarrow> reply_text (replies (i + j)) = []) \<Longrightarrow>
   map_of (translations_of replies i langs d) l = map_of d l"
proof (induction langs arbitrary: i d)
  case Nil
  then show ?case by simp
next
  case (Cons h hs)
  have tl: "\<forall>j<length hs. hs ! j = l \<longrightarrow> reply_text (replies (Suc i + j)) = []"
    using Cons.prems by fastforce
  have hd: "h = l \<longrightarrow> reply_text (replies i) = []" using Cons.prems by fastforce
  show ?case using hd by (auto simp: Cons.IH [OF tl] map_of_dict_setitem)
qed

lemma send_to_vrchat_frame:
  "send_to_vrchat send_ok text st = st\<lparr>trace := trace st @ send_events send_ok text\<rparr>"
  by (simp add: send_to_vrchat_def send_events_def new_translator_def logger_def emit_def Let_def)

lemma format_output_frame:
  "format_output d text st =
     (fst (format_output d text new_translator),
      st\<lparr>trace := trace st @ [Log INFO (FormattedOutput (fst (format_output d text new_translator)))]\<rparr>)"
  by (simp add: format_output_def new_translator_def logger_def emit_def Let_def)

lemma translate_and_send_Some:
  "text \<noteq> [] \<Longrightarrow>
   translate_and_send cfg env (Some text) st =
     st\<lparr>trace := trace st @
          fanout_events cfg (translation_result env) text 0 (target_languages cfg) @
          [Log INFO (FormattedOutput (output_message cfg env text))] @
          send_events (osc_ok env) (output_message cfg env text)\<rparr>"
  unfolding translate_and_send_def output_message_def
  apply (simp add: translate_languages_frame)
  apply (subst format_output_frame)
  apply (simp add: send_to_vrchat_frame)
  done

lemma translate_and_send_frame:
  "translate_and_send cfg env original_text st =
     st\<lparr>trace := trace st @ dispatch_events cfg env original_text\<rparr>"
proof (cases "original_text = None \<or> original_text = Some []")
  case True
  then show ?thesis
    by (auto simp: translate_and_send_def dispatch_events_def new_translator_def)
next
  case False
  then obtain tx where t: "original_text = Some tx" "tx \<noteq> []" by auto
  show ?thesis
    unfolding dispatch_events_def t(1)
    by (simp add: translate_and_send_Some [OF t(2)] new_translator_def)
qed

lemma process_job_frame:
  "process_job cfg env audio st =
     st\<lparr>is_translating := False,
        trace := trace st @ transcription_events cfg env audio @
                 dispatch_events cfg env (transcription cfg env audio)\<rparr>"
  unfolding process_job_def
  apply (subst transcribe_audio_frame)
  apply (simp add: Let_def)
  apply (subst translate_and_send_frame)
  apply simp
  done

lemma join_last_nonempty: "text \<noteq> [] \<Longrightarrow> join sep (xs @ [text]) \<noteq> []"
  by (induction sep xs rule: join.induct) auto

lemma output_message_eq:
  "text \<noteq> [] \<Longrightarrow>
   output_message cfg env text =
     join [10] (filter (\<lambda>t. t \<noteq> [])
                  (map snd (translations_of (translation_result env) 0 (target_languages cfg) []))
                @ [text])"
  by (simp add: output_message_def translate_languages_frame format_output_def Let_def)

lemma output_message_distinct:
  "text \<noteq> [] \<Longrightarrow> distinct (target_languages cfg) \<Longrightarrow>
   output_message cfg env text =
     join [10] (filter (\<lambda>t. t \<noteq> [])
                  (map (\<lambda>i. reply_text (translation_result env i))
                     [0..<length (target_languages cfg)])
                @ [text])"
  using translations_of_distinct [of "target_languages cfg" "[]" "translation_result env" 0]
  by (simp add: output_message_eq)

lemma osc_sends_append: "osc_sends (xs @ ys) = osc_sends xs @ osc_sends ys"
  by (simp add: osc_sends_def)

lemma osc_sends_simps:
  "osc_sends [] = []"
  "osc_sends (e # es) = (if is_OscSend e then e # osc_sends es else osc_sends es)"
  by (simp_all add: osc_sends_def)

lemma chat_calls_simps:
  "chat_calls [] = []"
  "chat_calls (e # es) = (if is_ChatCall e then e # chat_calls es else chat_calls es)"
  by (simp_all add: chat_calls_def)

lemma chat_calls_append: "chat_calls (xs @ ys) = chat_calls xs @ chat_calls ys"
  by (simp add: chat_calls_def)

lemma osc_sends_translation_events: "osc_sends (translation_events cfg reply text lang) = []"
  by (simp add: translation_events_def translate_text_def new_translator_def logger_def emit_def
        osc_sends_def Let_def split: chat_outcome.split)

lemma osc_sends_fanout_events: "osc_sends (fanout_events cfg replies text i langs) = []"
  by (induction langs arbitrary: i)
     (simp_all add: osc_sends_append osc_sends_translation_events osc_sends_simps)

lemma chat_calls_translation_events:
  "text \<noteq> [] \<Longrightarrow>
   chat_calls (translation_events cfg reply text lang) =
     [ChatCall (TranslationRequest (model_name cfg) (source_language cfg) lang text)]"
  by (simp add: translation_events_def translate_text_def new_translator_def logger_def emit_def
        chat_calls_def Let_def split: chat_outcome.split)

lemma chat_calls_fanout_events:
  "text \<noteq> [] \<Longrightarrow>
   chat_calls (fanout_events cfg replies text i langs) =
     map (\<lambda>lang. ChatCall (TranslationRequest (model_name cfg) (source_language cfg) lang text))
       langs"
  by (induction langs arbitrary: i)
     (simp_all add: chat_calls_append chat_calls_translation_events chat_calls_simps)

lemma osc_sends_send_events:
  "osc_sends (send_events send_ok text) =
     (if text = [] then []
      else [OscSend chatbox_input [OscStr text, OscBool True, OscBool False]])"
  by (simp add: send_events_def send_to_vrchat_def new_translator_def logger_def emit_def
        osc_sends_def Let_def)

lemma osc_sends_dispatch_events:
  "text \<noteq> [] \<Longrightarrow>
   osc_sends (dispatch_events cfg env (Some text)) =
     [OscSend chatbox_input [OscStr (output_message cfg env text), OscBool True, OscBool False]]"
proof -
  assume t: "text \<noteq> []"
  have ne: "output_message cfg env text \<noteq> []"
    by (simp add: output_message_eq [OF t] join_last_nonempty [OF t])
  show ?thesis
    unfolding dispatch_events_def translate_and_send_Some [OF t]
    by (simp add: new_translator_def osc_sends_append osc_sends_fanout_events
          osc_sends_send_events osc_sends_simps ne)
qed

lemma dispatch_events_nothing:
  "dispatch_events cfg env None = []" "dispatch_events cfg env (Some []) = []"
  by (simp_all add: dispatch_events_def translate_and_send_def new_translator_def)

lemma osc_sends_transcription_events: "osc_sends (transcription_events cfg env audio) = []"
  unfolding transcription_events_def transcribe_audio_def
  apply (subst semantic_correction_frame)
  by (simp add: new_translator_def logger_def emit_def Let_def osc_sends_def
        correction_events_def semantic_correction_def
        split: chat_outcome.split option.split stt_outcome.split)

lemma strip_strip: "strip (strip s) = strip s"
proof -
  define a where "a = dropWhile isspace s"
  define b where "b = dropWhile isspace (rev a)"
  have s: "strip s = rev b" by (simp add: strip_def a_def b_def)
  have keep: "dropWhile isspace xs = xs" if "xs = [] \<or> \<not> isspace (hd xs)" for xs
    using that by (cases xs) auto
  have b_hd: "b = [] \<or> \<not> isspace (hd b)"
    unfolding b_def using hd_dropWhile [of isspace "rev a"] by blast
  have a_hd: "a = [] \<or> \<not> isspace (hd a)"
    unfolding a_def using hd_dropWhile [of isspace s] by blast
  have "rev a = takeWhile isspace (rev a) @ b" by (simp add: b_def)
  then have "a = rev b @ rev (takeWhile isspace (rev a))"
    by (metis rev_append rev_rev_ident)
  then have "b \<noteq> [] \<Longrightarrow> hd (rev b) = hd a \<and> a \<noteq> []"
    by (metis Nil_is_append_conv hd_append2 rev_is_Nil_conv)
  with a_hd have rb_hd: "rev b = [] \<or> \<not> isspace (hd (rev b))" by auto
  have "strip (rev b) = rev (dropWhile isspace (rev (dropWhile isspace (rev b))))"
    by (simp add: strip_def)
  also have "\<dots> = rev (dropWhile isspace b)" by (simp add: keep [OF rb_hd])
  also have "\<dots> = rev b" by (simp add: keep [OF b_hd])
  finally show ?thesis by (simp add: s)
qed

lemma transcription_short:
  "real (length (concat audio)) / (2 * real_of_int (RATE cfg)) < 1 / 2 \<Longrightarrow> 0 < RATE cfg \<Longrightarrow>
   transcription cfg env audio = None \<and>
   transcription_events cfg env audio =
     [Log INFO Transcribing,
      if even (length (concat audio)) then Log WARNING RecordingTooShort
      else Log ERROR TranscribeFailed]"
proof -
  assume d: "real (length (concat audio)) / (2 * real_of_int (RATE cfg)) < 1 / 2" and r: "0 < RATE cfg"
  from r have "real (length (concat audio)) < real_of_int (RATE cfg)"
    using d by (simp add: field_simps)
  then have lt: "int (length (concat audio)) < RATE cfg" by linarith
  have "2 * int (length (concat audio) div 2) \<le> int (length (concat audio))" by simp
  with lt have "2 * int (length (concat audio) div 2) < RATE cfg" by linarith
  then show ?thesis
    by (simp add: transcription_def transcription_events_def transcribe_audio_def frombuffer_def
          length_samples new_translator_def logger_def emit_def Let_def)
qed

lemma transcription_empty:
  "stt_result env = SttRaises \<or> stt_result env = SttReturns None \<or>
   (stt_result env = SttReturns (Some t) \<and> strip t = []) \<Longrightarrow>
   transcription cfg env audio = None \<and> chat_calls (transcription_events cfg env audio) = []"
  by (auto simp: transcription_def transcription_events_def transcribe_audio_def
        new_translator_def logger_def emit_def Let_def chat_calls_def strip_Nil
        split: option.split)

lemma transcription_correction_raises:
  "stt_result env = SttReturns (Some t) \<Longrightarrow> correction_result env = ChatRaises \<Longrightarrow>
   even (length (concat audio)) \<Longrightarrow> RATE cfg \<le> int (length (concat audio)) \<Longrightarrow>
   strip t \<noteq> [] \<Longrightarrow>
   transcription cfg env audio = Some (strip t) \<and>
   chat_calls (transcription_events cfg env audio) =
     (if length (strip t) < 2 then []
      else [ChatCall (CorrectionRequest (model_name cfg) (strip t))])"
proof -
  assume a: "stt_result env = SttReturns (Some t)" "correction_result env = ChatRaises"
    "even (length (concat audio))" "RATE cfg \<le> int (length (concat audio))" "strip t \<noteq> []"
  from a(3) have "2 * int (length (concat audio) div 2) = int (length (concat audio))"
    by auto
  with a(4) have "\<not> 2 * int (length (concat audio) div 2) < RATE cfg" by linarith
  with a show ?thesis
    by (simp add: transcription_def transcription_events_def transcribe_audio_def frombuffer_def
          length_samples new_translator_def logger_def emit_def Let_def chat_calls_def
          semantic_correction_def strip_strip)
qed

lemma chat_calls_dispatch_events:
  "text \<noteq> [] \<Longrightarrow>
   chat_calls (dispatch_events cfg env (Some text)) =
     map (\<lambda>lang. ChatCall (TranslationRequest (model_name cfg) (source_language cfg) lang text))
       (target_languages cfg)"
proof -
  assume t: "text \<noteq> []"
  show ?thesis
    unfolding dispatch_events_def translate_and_send_Some [OF t]
    by (simp add: new_translator_def chat_calls_append chat_calls_fanout_events [OF t]
          chat_calls_simps send_events_def send_to_vrchat_def logger_def emit_def Let_def)
qed

lemma listener_no_release:
  "\<forall>e\<in>set evs. \<not> is_hotkey_release lower cfg e \<Longrightarrow>
   sessions_started (trace (listener lower cfg evs st)) \<le> Suc (sessions_started (trace st)) \<and>
   (is_recording st \<longrightarrow>
      sessions_started (trace (listener lower cfg evs st)) = sessions_started (trace st) \<and>
      is_recording (listener lower cfg evs st))"
proof (induction evs arbitrary: st)
  case Nil
  then show ?case by simp
next
  case (Cons e evs)
  then have rest: "\<forall>e\<in>set evs. \<not> is_hotkey_release lower cfg e" by simp
  note IH = Cons.IH [OF rest]
  show ?case
  proof (cases e)
    case (Press k outcome)
    let ?st = "on_press lower cfg k outcome st"
    have step: "(is_recording st \<longrightarrow> is_recording ?st \<and>
                   sessions_started (trace ?st) = sessions_started (trace st)) \<and>
                (sessions_started (trace ?st) = sessions_started (trace st) \<or>
                 sessions_started (trace ?st) = Suc (sessions_started (trace st)) \<and>
                 is_recording ?st)"
      by (cases outcome)
         (auto simp: on_press_def start_recording_def logger_def emit_def Let_def
            sessions_started_def)
    show ?thesis using IH [of ?st] step Press by auto
  next
    case (Release k close_ok)
    with Cons.prems have "\<not> is_hotkey lower cfg k" by simp
    then have "on_release lower cfg k close_ok st = st" by (simp add: on_release_def)
    then show ?thesis using IH [of st] Release by simp
  qed
qed

lemma translation_value_eq:
  "text \<noteq> [] \<Longrightarrow> translation_value cfg env text i = reply_text (translation_result env i)"
  by (simp add: translation_value_def translate_text_frame)

lemma translation_values_eq:
  "text \<noteq> [] \<Longrightarrow>
   map (translation_value cfg env text) xs = map (\<lambda>i. reply_text (translation_result env i)) xs"
  by (simp add: translation_value_eq)

lemma osc_sends_process_job:
  "osc_sends (trace (process_job cfg env audio st)) =
     osc_sends (trace st) @ osc_sends (dispatch_events cfg env (transcription cfg env audio))"
  by (simp add: process_job_frame osc_sends_append osc_sends_transcription_events)

lemma transcribe_hello_world:
  "fst (transcribe_audio zh_config hello_world_env [[1, 0]] st) =
     Some [0x4F60, 0x597D, 0x4E16, 0x754C]"
  by (simp add: transcribe_audio_def semantic_correction_def frombuffer_def strip_def
        isspace_def zh_config_def hello_world_env_def logger_def emit_def Let_def)

lemma translation_failed_iff:
  "text \<noteq> [] \<Longrightarrow> fst (translate_text cfg reply text lang st) = [] \<longleftrightarrow> reply_text reply = []"
  by (simp add: translate_text_frame)

lemma process_job_events:
  "process_job cfg env audio st =
     st\<lparr>is_translating := False, trace := trace st @ job_events cfg env audio\<rparr>"
  by (simp add: job_events_def process_job_frame new_translator_def)

lemma process_job_queue_update:
  "process_job cfg env audio (st\<lparr>translation_queue := q\<rparr>) =
     (process_job cfg env audio st)\<lparr>translation_queue := q\<rparr>"
  by (simp add: process_job_events)

lemma run_jobs_queue_update:
  "run_jobs cfg envs n jobs (st\<lparr>translation_queue := q\<rparr>) =
     (run_jobs cfg envs n jobs st)\<lparr>translation_queue := q\<rparr>"
  by (induction jobs arbitrary: n st) (simp_all add: process_job_queue_update)

lemma worker_runs_jobs:
  "translation_queue st = map Some jobs @ None # rest \<Longrightarrow>
   process_translation_queue cfg envs n st =
     Some ((run_jobs cfg envs n jobs st)\<lparr>translation_queue := rest\<rparr>)"
proof (induction jobs arbitrary: n st)
  case Nil
  then show ?case by (subst process_translation_queue.simps) simp
next
  case (Cons a jobs)
  let ?st = "process_job cfg (envs n) a (st\<lparr>translation_queue := map Some jobs @ None # rest\<rparr>)"
  have q: "translation_queue ?st = map Some jobs @ None # rest"
    by (simp add: process_job_events)
  have "process_translation_queue cfg envs n st =
          process_translation_queue cfg envs (Suc n) ?st"
    using Cons.prems by (subst process_translation_queue.simps) simp
  also have "\<dots> = Some ((run_jobs cfg envs (Suc n) jobs ?st)\<lparr>translation_queue := rest\<rparr>)"
    by (rule Cons.IH [OF q])
  finally show ?case
    by (simp add: process_job_queue_update run_jobs_queue_update)
qed

lemma worker_returns_only_on_signal:
  "process_translation_queue cfg envs n st = Some st' \<Longrightarrow> None \<in> set (translation_queue st)"
proof (induction arbitrary: st' rule: process_translation_queue.raw_induct [rotated 1, consumes 1])
  case (1 ptq cfg envs n st st')
  show ?case
  proof (cases "translation_queue st")
    case Nil
    with 1(2) have "ptq cfg envs n st = Some st'" by simp
    from 1(1) [OF this] Nil show ?thesis by simp
  next
    case (Cons item q)
    show ?thesis
    proof (cases item)
      case None
      with Cons show ?thesis by simp
    next
      case (Some audio)
      with 1(2) Cons
      have "ptq cfg envs (Suc n) (process_job cfg (envs n) audio (st\<lparr>translation_queue := q\<rparr>))
              = Some st'" by simp
      from 1(1) [OF this] have "None \<in> set q" by (simp add: process_job_events)
      with Cons show ?thesis by simp
    qed
  qed
qed

lemma map_Some_the: "None \<notin> set q \<Longrightarrow> map Some (map the q) = q"
  by (induction q) auto

text \<open>
  With one channel, a recording shorter than 0.5 seconds is discarded with one entry of
  the log after the "transcribing" line, before any call.
\<close>

lemma short_audio_discarded_mono:
  "CHANNELS cfg = 1 \<and> 0 < RATE cfg \<and> duration_seconds cfg audio < 1 / 2 \<longrightarrow>
     fst (transcribe_audio cfg env audio st) = None \<and>
     process_job cfg env audio st =
       st\<lparr>is_translating := False,
          trace := trace st @
            [Log INFO Transcribing,
             if even (length (concat audio)) then Log WARNING RecordingTooShort
             else Log ERROR TranscribeFailed]\<rparr>"
proof
  assume h: "CHANNELS cfg = 1 \<and> 0 < RATE cfg \<and> duration_seconds cfg audio < 1 / 2"
  from h have c: "CHANNELS cfg = 1" and r: "0 < RATE cfg"
    and dd: "duration_seconds cfg audio < 1 / 2" by simp_all
  from dd have d: "real (length (concat audio)) / (2 * real_of_int (RATE cfg)) < 1 / 2"
    by (simp add: duration_seconds_def c)
  have s: "transcription cfg env audio = None"
    "transcription_events cfg env audio =
       [Log INFO Transcribing,
        if even (length (concat audio)) then Log WARNING RecordingTooShort
        else Log ERROR TranscribeFailed]"
    using transcription_short [OF d r, of env] by blast+
  show "fst (transcribe_audio cfg env audio st) = None \<and>
     process_job cfg env audio st =
       st\<lparr>is_translating := False,
          trace := trace st @
            [Log INFO Transcribing,
             if even (length (concat audio)) then Log WARNING RecordingTooShort
             else Log ERROR TranscribeFailed]\<rparr>"
    by (simp add: transcribe_audio_frame process_job_frame s dispatch_events_nothing)
qed

lemma transcription_stereo_quarter_second:
  "transcription stereo_config hello_world_env stereo_quarter_second =
     Some [0x4F60, 0x597D, 0x4E16, 0x754C]"
  "stt_calls (transcription_events stereo_config hello_world_env stereo_quarter_second) =
     [SttCall (waveform (samples (concat stereo_quarter_second))) (ascii ''zh'')]"
  by (simp_all add: transcription_def transcription_events_def transcribe_audio_def
        semantic_correction_def frombuffer_def length_samples strip_def isspace_def
        stereo_config_def hello_world_env_def stereo_quarter_second_def new_translator_def
        logger_def emit_def Let_def stt_calls_def)

lemma transcribe_repeated_language:
  "stt_result env = SttReturns (Some (ascii ''hi'')) \<Longrightarrow> correction_result env = ChatRaises \<Longrightarrow>
   fst (transcribe_audio repeated_language_config env [[1, 0]] st) = Some (ascii ''hi'')"
  by (simp add: transcribe_audio_def semantic_correction_def frombuffer_def strip_def
        isspace_def repeated_language_config_def zh_config_def logger_def emit_def Let_def
        ascii_def)

section \<open>The claims\<close>

text \<open>
  C8. \<open>send_to_vrchat\<close> on the empty message only logs a warning. On any other message
  it sends exactly one datagram, to \<open>/chatbox/input\<close> with the payload
  \<open>[message, True, False]\<close>; when the send raises, the method still returns, having
  logged one error after that single attempt.
\<close>

theorem send_to_vrchat_dispatch:
  "send_to_vrchat send_ok [] st = st\<lparr>trace := trace st @ [Log WARNING NothingToSend]\<rparr> \<and>
   (text \<noteq> [] \<longrightarrow>
      osc_sends (trace (send_to_vrchat send_ok text st)) =
        osc_sends (trace st) @
          [OscSend (ascii ''/chatbox/input'') [OscStr text, OscBool True, OscBool False]] \<and>
      send_to_vrchat False text st =
        st\<lparr>trace := trace st @
          [OscSend (ascii ''/chatbox/input'') [OscStr text, OscBool True, OscBool False],
           Log ERROR SendFailed]\<rparr>)"
  by (simp add: send_to_vrchat_def logger_def emit_def osc_sends_def chatbox_input_def Let_def)

theorem send_to_vrchat_dispatch_witness:
  "ascii ''Hi'' \<noteq> [] \<and>
   osc_sends (trace (send_to_vrchat True (ascii ''Hi'') new_translator)) =
     [OscSend (ascii ''/chatbox/input'') [OscStr [72, 105], OscBool True, OscBool False]] \<and>
   trace (send_to_vrchat False (ascii ''Hi'') new_translator) =
     [OscSend (ascii ''/chatbox/input'') [OscStr [72, 105], OscBool True, OscBool False],
      Log ERROR SendFailed]"
  using send_to_vrchat_dispatch [of True new_translator "ascii ''Hi''"]
        send_to_vrchat_dispatch [of False new_translator "ascii ''Hi''"]
  by (simp add: new_translator_def osc_sends_def ascii_def)

text \<open>
  C9. \<open>stop_recording\<close> on an active recording whose frame buffer is empty (or was
  never set) leaves the queue as it was, and the last effect is an error entry of the log:
  "no audio data", or "stopping failed" when closing the stream raised.
\<close>

theorem stop_recording_empty_buffer:
  "is_recording st \<and> (audio_data st = Some [] \<or> audio_data st = None) \<longrightarrow>
     translation_queue (stop_recording close_ok st) = translation_queue st \<and>
     trace (stop_recording close_ok st) =
       trace st @
       (if stream st \<noteq> None \<and> \<not> close_ok then [Log ERROR StopRecordingFailed]
        else (if stream st \<noteq> None then [StreamClose] else []) @
             [Log INFO RecordingStopped, Log ERROR NoAudioData])"
  by (auto simp: stop_recording_def logger_def emit_def Let_def)

theorem stop_recording_empty_buffer_witness:
  "is_recording (start_recording ThreadStarts new_translator) \<and>
   audio_data (start_recording ThreadStarts new_translator) = Some [] \<and>
   translation_queue (stop_recording True (start_recording ThreadStarts new_translator)) = [] \<and>
   trace (stop_recording True (start_recording ThreadStarts new_translator)) =
     [StreamOpen, Log INFO RecordingStarted, ThreadStart,
      StreamClose, Log INFO RecordingStopped, Log ERROR NoAudioData]"
  using stop_recording_empty_buffer [of "start_recording ThreadStarts new_translator" True]
  by (simp add: start_recording_def new_translator_def logger_def emit_def)

text \<open>
  C10. When \<open>audio.open\<close> raises in \<open>start_recording\<close>, the recording flag is
  \<open>False\<close> again, as it was before the call: the object differs from before only by the
  emptied frame buffer and one error entry of the log. A press of the trigger key that fails
  this way leaves the flag off, and the next press, with the device opening, starts a
  recording.
\<close>

theorem start_recording_open_failure:
  "\<not> is_recording st \<longrightarrow>
     start_recording OpenRaises st =
       st\<lparr>audio_data := Some [], trace := trace st @ [Log ERROR StartRecordingFailed]\<rparr> \<and>
     \<not> is_recording (start_recording OpenRaises st) \<and>
     (is_hotkey lower cfg k \<and> \<not> is_translating st \<longrightarrow>
        \<not> is_recording (on_press lower cfg k OpenRaises st) \<and>
        is_recording (on_press lower cfg k ThreadStarts (on_press lower cfg k OpenRaises st)) \<and>
        sessions_started
          (trace (on_press lower cfg k ThreadStarts (on_press lower cfg k OpenRaises st))) =
          Suc (sessions_started (trace st)))"
  by (auto simp: start_recording_def on_press_def logger_def emit_def Let_def sessions_started_def)

theorem start_recording_open_failure_witness:
  "\<not> is_recording new_translator \<and>
   is_hotkey ascii_lower default_config (KeyCode (Some (ascii ''K''))) \<and>
   \<not> is_translating new_translator \<and>
   start_recording OpenRaises new_translator =
     new_translator\<lparr>audio_data := Some [], trace := [Log ERROR StartRecordingFailed]\<rparr> \<and>
   is_recording (on_press ascii_lower default_config (KeyCode (Some (ascii ''K''))) ThreadStarts
     (on_press ascii_lower default_config (KeyCode (Some (ascii ''K''))) OpenRaises
        new_translator)) \<and>
   sessions_started (trace
     (on_press ascii_lower default_config (KeyCode (Some (ascii ''K''))) ThreadStarts
       (on_press ascii_lower default_config (KeyCode (Some (ascii ''K''))) OpenRaises
          new_translator))) = 1"
proof -
  have h: "is_hotkey ascii_lower default_config (KeyCode (Some (ascii ''K'')))"
    by (simp add: is_hotkey_def ascii_lower_def default_config_def ascii_def)
  have n: "\<not> is_recording new_translator" "\<not> is_translating new_translator"
          "trace new_translator = []"
    by (simp_all add: new_translator_def)
  show ?thesis
    using start_recording_open_failure
            [of new_translator ascii_lower default_config "KeyCode (Some (ascii ''K''))"] h n
    by (simp add: sessions_started_def)
qed

text \<open>
  C5. The check of \<open>transcribe_audio\<close> counts 16-bit samples against half the sample
  rate, whatever the number of channels. With two channels a recording of 4096 frames,
  0.256 seconds, holds 8192 samples, which is not below 8000: it is transcribed, translated
  and sent, though it is shorter than the 0.5 seconds the check is written for.
\<close>

theorem short_stereo_recording_transcribed:
  "duration_seconds stereo_config stereo_quarter_second = 32 / 125 \<and>
   fst (transcribe_audio stereo_config hello_world_env stereo_quarter_second
          (new_translator\<lparr>is_translating := True\<rparr>)) = Some [0x4F60, 0x597D, 0x4E16, 0x754C] \<and>
   stt_calls (trace (process_job stereo_config hello_world_env stereo_quarter_second
                       new_translator)) =
     [SttCall (waveform (samples (concat stereo_quarter_second))) (ascii ''zh'')] \<and>
   osc_sends (trace (process_job stereo_config hello_world_env stereo_quarter_second
                       new_translator)) =
     [OscSend (ascii ''/chatbox/input'')
        [OscStr (ascii ''Hello world'' @ [10] @
                 [0x3053, 0x3093, 0x306B, 0x3061, 0x306F, 0x4E16, 0x754C] @ [10] @
                 [0x4F60, 0x597D, 0x4E16, 0x754C]),
         OscBool True, OscBool False]]"
proof -
  have d: "duration_seconds stereo_config stereo_quarter_second = 32 / 125"
    by (simp add: duration_seconds_def stereo_config_def stereo_quarter_second_def)
  have ne: "[0x4F60, 0x597D, 0x4E16, 0x754C] \<noteq> ([] :: pystr)" by simp
  have dl: "distinct (target_languages stereo_config)"
    by (simp add: stereo_config_def ascii_def)
  have v: "map (\<lambda>i. reply_text (translation_result hello_world_env i))
             [0..<length (target_languages stereo_config)] =
           [ascii ''Hello world'', [0x3053, 0x3093, 0x306B, 0x3061, 0x306F, 0x4E16, 0x754C]]"
    by (simp add: reply_text_def stereo_config_def hello_world_env_def
          strip_def isspace_def ascii_def upt_rec)
  have m: "output_message stereo_config hello_world_env [0x4F60, 0x597D, 0x4E16, 0x754C] =
             ascii ''Hello world'' @ [10] @
             [0x3053, 0x3093, 0x306B, 0x3061, 0x306F, 0x4E16, 0x754C] @ [10] @
             [0x4F60, 0x597D, 0x4E16, 0x754C]"
    unfolding output_message_distinct [OF ne dl] v by (simp add: ascii_def)
  have s: "stt_calls (dispatch_events cfg env tx) = []" for cfg env tx
  proof (cases "tx = None \<or> tx = Some []")
    case True
    then show ?thesis by (auto simp: dispatch_events_nothing stt_calls_def)
  next
    case False
    then obtain t where t: "tx = Some t" "t \<noteq> []" by auto
    have f: "filter is_SttCall (fanout_events cfg replies t i langs) = []" for replies i langs
      by (induction langs arbitrary: i)
         (simp_all add: translation_events_def translate_text_def new_translator_def
            logger_def emit_def Let_def split: chat_outcome.split)
    show ?thesis
      unfolding t(1) dispatch_events_def translate_and_send_Some [OF t(2)]
      by (simp add: new_translator_def stt_calls_def f send_events_def send_to_vrchat_def
            logger_def emit_def Let_def)
  qed
  show ?thesis
    by (simp add: d transcribe_audio_frame process_job_frame
          transcription_stereo_quarter_second new_translator_def stt_calls_def [of "_ @ _"]
          osc_sends_append osc_sends_transcription_events osc_sends_dispatch_events m
          osc_sends_simps chatbox_input_def)
       (simp add: s [unfolded stt_calls_def]
          transcription_stereo_quarter_second(2) [unfolded stt_calls_def])
qed

text \<open>
  C6. When the speech-to-text call raises, or returns no text, or a text that is empty
  once stripped, \<open>transcribe_audio\<close> returns \<open>None\<close> and the job makes no request to
  the text service (no correction, no translation) and sends no message.
\<close>

theorem empty_transcription_discarded:
  "stt_result env = SttRaises \<or> stt_result env = SttReturns None \<or>
   (stt_result env = SttReturns (Some t) \<and> strip t = []) \<longrightarrow>
     fst (transcribe_audio cfg env audio st) = None \<and>
     chat_calls (trace (process_job cfg env audio st)) = chat_calls (trace st) \<and>
     osc_sends (trace (process_job cfg env audio st)) = osc_sends (trace st)"
proof
  assume "stt_result env = SttRaises \<or> stt_result env = SttReturns None \<or>
   (stt_result env = SttReturns (Some t) \<and> strip t = [])"
  then have s: "transcription cfg env audio = None"
    "chat_calls (transcription_events cfg env audio) = []"
    using transcription_empty [of env t cfg audio] by simp_all
  show "fst (transcribe_audio cfg env audio st) = None \<and>
     chat_calls (trace (process_job cfg env audio st)) = chat_calls (trace st) \<and>
     osc_sends (trace (process_job cfg env audio st)) = osc_sends (trace st)"
    by (simp add: transcribe_audio_frame process_job_frame s dispatch_events_nothing
          chat_calls_append osc_sends_append osc_sends_transcription_events)
qed

theorem empty_transcription_discarded_witness:
  "stt_result quiet_env = SttReturns (Some (ascii ''  '')) \<and> strip (ascii ''  '') = [] \<and>
   trace (process_job (default_config\<lparr>RATE := 2\<rparr>) quiet_env [[1, 0]] new_translator) =
     [Log INFO Transcribing, Log INFO (AudioLength 1),
      SttCall [1 / 32768] (ascii ''zh''), Log INFO (RawTranscript [])] \<and>
   chat_calls (trace (process_job (default_config\<lparr>RATE := 2\<rparr>) quiet_env [[1, 0]]
     new_translator)) = [] \<and>
   osc_sends (trace (process_job (default_config\<lparr>RATE := 2\<rparr>) quiet_env [[1, 0]]
     new_translator)) = []"
proof -
  have h: "stt_result quiet_env = SttReturns (Some (ascii ''  ''))" "strip (ascii ''  '') = []"
    by (simp_all add: quiet_env_def strip_def ascii_def isspace_def)
  have n: "trace new_translator = []" by (simp add: new_translator_def)
  have t: "trace (process_job (default_config\<lparr>RATE := 2\<rparr>) quiet_env [[1, 0]] new_translator) =
     [Log INFO Transcribing, Log INFO (AudioLength 1),
      SttCall [1 / 32768] (ascii ''zh''), Log INFO (RawTranscript [])]"
    using h
    by (simp add: process_job_def transcribe_audio_def translate_and_send_def frombuffer_def
          int16_le_def waveform_def default_config_def new_translator_def logger_def emit_def
          Let_def)
  show ?thesis
    using empty_transcription_discarded
            [of quiet_env "ascii ''  ''" "default_config\<lparr>RATE := 2\<rparr>" "[[1, 0]]" new_translator]
          h n t
    by (simp add: chat_calls_simps osc_sends_simps)
qed

text \<open>
  C7, amended. \<open>semantic_correction\<close> returns its input unchanged when the input has
  fewer than 2 characters, when the request fails, or when the returned text, with leading
  and trailing whitespace stripped, is empty or equal to the input; the latter covers a
  reply identical to an input that has no surrounding whitespace, as every text the
  pipeline refines has. When the correction request fails inside a job, the transcript is
  returned as it was and every target language is requested with that unrefined text.
\<close>

theorem refinement_fallback:
  "((length text < 2 \<or> reply = ChatRaises \<or>
     (reply = ChatReturns content \<and> (strip content = [] \<or> strip content = text))) \<longrightarrow>
      fst (semantic_correction cfg reply text st) = text) \<and>
   (strip text = text \<and> reply = ChatReturns text \<longrightarrow>
      fst (semantic_correction cfg reply text st) = text) \<and>
   (stt_result env = SttReturns (Some t) \<and> strip t \<noteq> [] \<and>
    correction_result env = ChatRaises \<and>
    even (length (concat audio)) \<and> RATE cfg \<le> int (length (concat audio)) \<longrightarrow>
      fst (transcribe_audio cfg env audio st) = Some (strip t) \<and>
      chat_calls (trace (process_job cfg env audio st)) =
        chat_calls (trace st) @
        (if length (strip t) < 2 then []
         else [ChatCall (CorrectionRequest (model_name cfg) (strip t))]) @
        map (\<lambda>lang. ChatCall (TranslationRequest (model_name cfg) (source_language cfg) lang
                               (strip t)))
          (target_languages cfg))"
proof (intro conjI impI)
  assume "length text < 2 \<or> reply = ChatRaises \<or>
     (reply = ChatReturns content \<and> (strip content = [] \<or> strip content = text))"
  moreover have "length (strip text) \<le> length text" by (rule length_strip)
  ultimately show "fst (semantic_correction cfg reply text st) = text"
    by (auto simp: semantic_correction_def Let_def split: chat_outcome.split)
next
  assume "strip text = text \<and> reply = ChatReturns text"
  then show "fst (semantic_correction cfg reply text st) = text"
    by (auto simp: semantic_correction_def Let_def)
next
  assume h: "stt_result env = SttReturns (Some t) \<and> strip t \<noteq> [] \<and>
    correction_result env = ChatRaises \<and>
    even (length (concat audio)) \<and> RATE cfg \<le> int (length (concat audio))"
  then have s: "transcription cfg env audio = Some (strip t)"
    "chat_calls (transcription_events cfg env audio) =
       (if length (strip t) < 2 then []
        else [ChatCall (CorrectionRequest (model_name cfg) (strip t))])"
    using transcription_correction_raises [of env t audio cfg] by simp_all
  from h have ne: "strip t \<noteq> []" by simp
  show "fst (transcribe_audio cfg env audio st) = Some (strip t)"
    by (simp add: transcribe_audio_frame s)
  show "chat_calls (trace (process_job cfg env audio st)) =
        chat_calls (trace st) @
        (if length (strip t) < 2 then []
         else [ChatCall (CorrectionRequest (model_name cfg) (strip t))]) @
        map (\<lambda>lang. ChatCall (TranslationRequest (model_name cfg) (source_language cfg) lang
                               (strip t)))
          (target_languages cfg)"
    by (simp add: process_job_frame chat_calls_append s chat_calls_dispatch_events [OF ne])
qed

theorem refinement_fallback_witness:
  "length (ascii ''a'') < 2 \<and>
   fst (semantic_correction default_config (ChatReturns (ascii ''b'')) (ascii ''a'')
          new_translator) = ascii ''a'' \<and>
   strip (ascii '' ab '') = ascii ''ab'' \<and>
   fst (semantic_correction default_config (ChatReturns (ascii '' ab '')) (ascii ''ab'')
          new_translator) = ascii ''ab'' \<and>
   stt_result failing_refiner_env = SttReturns (Some (ascii '' hello '')) \<and>
   strip (ascii '' hello '') = ascii ''hello'' \<and> ascii ''hello'' \<noteq> [] \<and>
   correction_result failing_refiner_env = ChatRaises \<and>
   even (length (concat [[1, 0 :: byte]])) \<and>
   RATE (default_config\<lparr>RATE := 2\<rparr>) \<le> int (length (concat [[1, 0 :: byte]])) \<and>
   chat_calls (trace (process_job (default_config\<lparr>RATE := 2\<rparr>) failing_refiner_env [[1, 0]]
                        new_translator)) =
     [ChatCall (CorrectionRequest (ascii ''deepseek-chat'') (ascii ''hello'')),
      ChatCall (TranslationRequest (ascii ''deepseek-chat'') (ascii ''zh'') (ascii ''en'')
                  (ascii ''hello'')),
      ChatCall (TranslationRequest (ascii ''deepseek-chat'') (ascii ''zh'') (ascii ''ja'')
                  (ascii ''hello'')),
      ChatCall (TranslationRequest (ascii ''deepseek-chat'') (ascii ''zh'') (ascii ''ko'')
                  (ascii ''hello''))]"
proof -
  have s: "strip (ascii '' hello '') = ascii ''hello''"
    by (simp add: strip_def ascii_def isspace_def)
  have s2: "strip (ascii '' ab '') = ascii ''ab''"
    by (simp add: strip_def ascii_def isspace_def)
  have h: "stt_result failing_refiner_env = SttReturns (Some (ascii '' hello ''))"
    "correction_result failing_refiner_env = ChatRaises"
    by (simp_all add: failing_refiner_env_def)
  have a: "length (ascii ''a'') < 2" "ascii ''hello'' \<noteq> []" by (simp_all add: ascii_def)
  have c: "model_name (default_config\<lparr>RATE := 2\<rparr>) = ascii ''deepseek-chat''"
    "source_language (default_config\<lparr>RATE := 2\<rparr>) = ascii ''zh''"
    "target_languages (default_config\<lparr>RATE := 2\<rparr>) = [ascii ''en'', ascii ''ja'', ascii ''ko'']"
    "RATE (default_config\<lparr>RATE := 2\<rparr>) = 2"
    by (simp_all add: default_config_def)
  have l: "length (ascii ''hello'') = 5" by (simp add: ascii_def)
  show ?thesis
    using refinement_fallback
            [of "ascii ''a''" "ChatReturns (ascii ''b'')" _ default_config new_translator]
          refinement_fallback
            [of "ascii ''ab''" "ChatReturns (ascii '' ab '')" "ascii '' ab ''" default_config
                new_translator]
          s2
          refinement_fallback
            [of _ _ _ "default_config\<lparr>RATE := 2\<rparr>" new_translator
                failing_refiner_env "ascii '' hello ''" "[[1, 0]]"]
          s h a c l
    by (simp add: new_translator_def chat_calls_simps)
qed


text \<open>
  C7 as stated fails on an input with surrounding whitespace: the reply is identical to
  the input \<open>" ab "\<close>, and the result is \<open>"ab"\<close>, not the input.
\<close>

theorem refinement_identical_reply_counterexample:
  "fst (semantic_correction default_config (ChatReturns (ascii '' ab '')) (ascii '' ab '')
          new_translator) = ascii ''ab'' \<and>
   ascii ''ab'' \<noteq> ascii '' ab ''"
  by (simp add: semantic_correction_def strip_def ascii_def isspace_def Let_def)

text \<open>
  C3. A press of the trigger key while a recording is active, or while the worker has a
  job in hand (\<open>is_translating\<close>), only sets \<open>hotkey_pressed\<close>: no recording starts.
  Over any sequence of key events without a release of the trigger key at most one
  recording session starts; and a press that starts a session from the idle state, followed
  by any such events and a second press of the trigger key, gives exactly one session.
\<close>

theorem hotkey_single_session:
  "(is_hotkey lower cfg k \<and> (is_recording st \<or> is_translating st) \<longrightarrow>
      on_press lower cfg k outcome st = st\<lparr>hotkey_pressed := True\<rparr>) \<and>
   ((\<forall>e\<in>set evs. \<not> is_hotkey_release lower cfg e) \<longrightarrow>
      sessions_started (trace (listener lower cfg evs st)) \<le> Suc (sessions_started (trace st))) \<and>
   (is_hotkey lower cfg k \<and> is_hotkey lower cfg k' \<and>
    \<not> is_recording st \<and> \<not> is_translating st \<and>
    (\<forall>e\<in>set evs. \<not> is_hotkey_release lower cfg e) \<longrightarrow>
      sessions_started
        (trace (on_press lower cfg k' outcome
                  (listener lower cfg evs (on_press lower cfg k ThreadStarts st)))) =
        Suc (sessions_started (trace st)))"
proof (intro conjI impI)
  assume "is_hotkey lower cfg k \<and> (is_recording st \<or> is_translating st)"
  then show "on_press lower cfg k outcome st = st\<lparr>hotkey_pressed := True\<rparr>"
    by (auto simp: on_press_def Let_def)
next
  assume "\<forall>e\<in>set evs. \<not> is_hotkey_release lower cfg e"
  then show "sessions_started (trace (listener lower cfg evs st))
      \<le> Suc (sessions_started (trace st))"
    using listener_no_release [of evs lower cfg st] by simp
next
  assume h: "is_hotkey lower cfg k \<and> is_hotkey lower cfg k' \<and>
    \<not> is_recording st \<and> \<not> is_translating st \<and>
    (\<forall>e\<in>set evs. \<not> is_hotkey_release lower cfg e)"
  let ?s1 = "on_press lower cfg k ThreadStarts st"
  let ?s2 = "listener lower cfg evs ?s1"
  have s1: "is_recording ?s1" "sessions_started (trace ?s1) = Suc (sessions_started (trace st))"
    using h by (auto simp: on_press_def start_recording_def logger_def emit_def Let_def
                  sessions_started_def)
  have s2: "is_recording ?s2" "sessions_started (trace ?s2) = Suc (sessions_started (trace st))"
    using listener_no_release [of evs lower cfg ?s1] h s1 by auto
  have "on_press lower cfg k' outcome ?s2 = ?s2\<lparr>hotkey_pressed := True\<rparr>"
    using h s2(1) by (auto simp: on_press_def Let_def)
  then show "sessions_started (trace (on_press lower cfg k' outcome ?s2)) =
        Suc (sessions_started (trace st))"
    using s2(2) by simp
qed

theorem hotkey_single_session_witness:
  "is_hotkey ascii_lower default_config (KeyCode (Some (ascii ''k''))) \<and>
   is_hotkey ascii_lower default_config (KeyCode (Some (ascii ''K''))) \<and>
   is_translating (new_translator\<lparr>is_translating := True\<rparr>) \<and>
   on_press ascii_lower default_config (KeyCode (Some (ascii ''k''))) ThreadStarts
     (new_translator\<lparr>is_translating := True\<rparr>) =
     new_translator\<lparr>is_translating := True, hotkey_pressed := True\<rparr> \<and>
   \<not> is_recording new_translator \<and> \<not> is_translating new_translator \<and>
   sessions_started
     (trace (on_press ascii_lower default_config (KeyCode (Some (ascii ''K''))) ThreadStarts
        (listener ascii_lower default_config
           [Press (KeyCode (Some (ascii ''a''))) ThreadStarts, Release SpecialKey True,
            Press (KeyCode (Some (ascii ''k''))) ThreadStarts]
           (on_press ascii_lower default_config (KeyCode (Some (ascii ''k''))) ThreadStarts
              new_translator)))) = 1"
proof -
  have k: "is_hotkey ascii_lower default_config (KeyCode (Some (ascii ''k'')))"
    "is_hotkey ascii_lower default_config (KeyCode (Some (ascii ''K'')))"
    by (simp_all add: is_hotkey_def ascii_lower_def default_config_def ascii_def)
  have n: "\<not> is_recording new_translator" "\<not> is_translating new_translator"
    "trace new_translator = []"
    by (simp_all add: new_translator_def)
  have e: "\<forall>e\<in>set [Press (KeyCode (Some (ascii ''a''))) ThreadStarts, Release SpecialKey True,
              Press (KeyCode (Some (ascii ''k''))) ThreadStarts].
      \<not> is_hotkey_release ascii_lower default_config e"
    by (simp add: is_hotkey_def)
  show ?thesis
    using hotkey_single_session
            [of ascii_lower default_config "KeyCode (Some (ascii ''k''))"
                "new_translator\<lparr>is_translating := True\<rparr>" ThreadStarts]
          hotkey_single_session
            [of ascii_lower default_config "KeyCode (Some (ascii ''k''))" new_translator
                ThreadStarts
                "[Press (KeyCode (Some (ascii ''a''))) ThreadStarts, Release SpecialKey True,
                  Press (KeyCode (Some (ascii ''k''))) ThreadStarts]"
                "KeyCode (Some (ascii ''K''))"]
          k n e
    by (simp add: sessions_started_def)
qed

text \<open>
  C1, amended. With pairwise distinct target languages and a non-empty text returned by
  \<open>transcribe_audio\<close>, the worker sends exactly one message: the non-empty translation
  values, in the order of the configured target languages, then the text, joined by
  newlines; when every translation is empty the message is the text alone. When
  \<open>transcribe_audio\<close> returns nothing or the empty text, no message is sent. The
  end-to-end scenario (source \<open>zh\<close>, targets \<open>en\<close> and \<open>ja\<close>) is evaluated after the
  theorem.
\<close>

theorem output_message_order:
  "(distinct (target_languages cfg) \<and>
    fst (transcribe_audio cfg env audio (st\<lparr>is_translating := True\<rparr>)) = Some text \<and>
    text \<noteq> [] \<longrightarrow>
      osc_sends (trace (process_job cfg env audio st)) =
        osc_sends (trace st) @
        [OscSend chatbox_input
           [OscStr (join [10]
                      (filter (\<lambda>t. t \<noteq> [])
                         (map (translation_value cfg env text)
                            [0..<length (target_languages cfg)])
                       @ [text])),
            OscBool True, OscBool False]] \<and>
      ((\<forall>i<length (target_languages cfg). translation_value cfg env text i = []) \<longrightarrow>
         osc_sends (trace (process_job cfg env audio st)) =
           osc_sends (trace st) @
           [OscSend chatbox_input [OscStr text, OscBool True, OscBool False]])) \<and>
   (fst (transcribe_audio cfg env audio (st\<lparr>is_translating := True\<rparr>)) = None \<or>
    fst (transcribe_audio cfg env audio (st\<lparr>is_translating := True\<rparr>)) = Some [] \<longrightarrow>
      osc_sends (trace (process_job cfg env audio st)) = osc_sends (trace st))"
proof (intro conjI impI)
  assume h: "distinct (target_languages cfg) \<and>
    fst (transcribe_audio cfg env audio (st\<lparr>is_translating := True\<rparr>)) = Some text \<and>
    text \<noteq> []"
  then have t: "transcription cfg env audio = Some text" and ne: "text \<noteq> []"
    and d: "distinct (target_languages cfg)"
    by (simp_all add: transcribe_audio_frame)
  show m: "osc_sends (trace (process_job cfg env audio st)) =
        osc_sends (trace st) @
        [OscSend chatbox_input
           [OscStr (join [10]
                      (filter (\<lambda>t. t \<noteq> [])
                         (map (translation_value cfg env text)
                            [0..<length (target_languages cfg)])
                       @ [text])),
            OscBool True, OscBool False]]"
    by (simp add: osc_sends_process_job t osc_sends_dispatch_events [OF ne]
          output_message_distinct [OF ne d] translation_values_eq [OF ne])
  assume "\<forall>i<length (target_languages cfg). translation_value cfg env text i = []"
  then have "filter (\<lambda>t. t \<noteq> [])
               (map (translation_value cfg env text) [0..<length (target_languages cfg)]) = []"
    by (simp add: filter_empty_conv)
  with m show "osc_sends (trace (process_job cfg env audio st)) =
           osc_sends (trace st) @
           [OscSend chatbox_input [OscStr text, OscBool True, OscBool False]]"
    by simp
next
  assume "fst (transcribe_audio cfg env audio (st\<lparr>is_translating := True\<rparr>)) = None \<or>
    fst (transcribe_audio cfg env audio (st\<lparr>is_translating := True\<rparr>)) = Some []"
  then have "transcription cfg env audio = None \<or> transcription cfg env audio = Some []"
    by (simp add: transcribe_audio_frame)
  then show "osc_sends (trace (process_job cfg env audio st)) = osc_sends (trace st)"
    by (auto simp: osc_sends_process_job dispatch_events_nothing osc_sends_simps)
qed

theorem output_message_order_witness:
  "distinct (target_languages zh_config) \<and>
   fst (transcribe_audio zh_config hello_world_env [[1, 0]]
          (new_translator\<lparr>is_translating := True\<rparr>)) = Some [0x4F60, 0x597D, 0x4E16, 0x754C] \<and>
   [0x4F60, 0x597D, 0x4E16, 0x754C] \<noteq> ([] :: pystr) \<and>
   osc_sends (trace (process_job zh_config hello_world_env [[1, 0]] new_translator)) =
     [OscSend (ascii ''/chatbox/input'')
        [OscStr (ascii ''Hello world'' @ [10] @
                 [0x3053, 0x3093, 0x306B, 0x3061, 0x306F, 0x4E16, 0x754C] @ [10] @
                 [0x4F60, 0x597D, 0x4E16, 0x754C]),
         OscBool True, OscBool False]] \<and>
   fst (transcribe_audio zh_config failing_refiner_env [[1, 0]]
          (new_translator\<lparr>is_translating := True\<rparr>)) = Some (ascii ''hello'') \<and>
   osc_sends (trace (process_job zh_config failing_refiner_env [[1, 0]] new_translator)) =
     [OscSend (ascii ''/chatbox/input'') [OscStr (ascii ''hello''), OscBool True, OscBool False]] \<and>
   fst (transcribe_audio zh_config quiet_env [[1, 0]]
          (new_translator\<lparr>is_translating := True\<rparr>)) = None \<and>
   osc_sends (trace (process_job zh_config quiet_env [[1, 0]] new_translator)) = []"
proof -
  have d: "distinct (target_languages zh_config)"
    by (simp add: zh_config_def ascii_def)
  have v: "map (translation_value zh_config hello_world_env [0x4F60, 0x597D, 0x4E16, 0x754C])
             [0..<length (target_languages zh_config)] =
           [ascii ''Hello world'', [0x3053, 0x3093, 0x306B, 0x3061, 0x306F, 0x4E16, 0x754C]]"
    by (simp add: translation_value_def translate_text_def zh_config_def hello_world_env_def
          strip_def isspace_def ascii_def logger_def emit_def Let_def upt_rec)
  have t2: "fst (transcribe_audio zh_config failing_refiner_env [[1, 0]] st) =
              Some (ascii ''hello'')" for st
    by (simp add: transcribe_audio_def semantic_correction_def frombuffer_def strip_def
          isspace_def zh_config_def failing_refiner_env_def logger_def emit_def Let_def ascii_def)
  have v2: "\<forall>i<length (target_languages zh_config).
              translation_value zh_config failing_refiner_env (ascii ''hello'') i = []"
    by (simp add: translation_value_def translate_text_def failing_refiner_env_def
          logger_def emit_def Let_def)
  have t3: "fst (transcribe_audio zh_config quiet_env [[1, 0]] st) = None" for st
    by (simp add: transcribe_audio_def frombuffer_def strip_def isspace_def zh_config_def
          quiet_env_def logger_def emit_def Let_def ascii_def)
  have a: "ascii ''hello'' \<noteq> []" by (simp add: ascii_def)
  have n: "trace new_translator = []" by (simp add: new_translator_def)
  show ?thesis
    using output_message_order
            [of zh_config hello_world_env "[[1, 0]]" new_translator
                "[0x4F60, 0x597D, 0x4E16, 0x754C]"]
          output_message_order
            [of zh_config failing_refiner_env "[[1, 0]]" new_translator "ascii ''hello''"]
          output_message_order
            [of zh_config quiet_env "[[1, 0]]" new_translator]
          d transcribe_hello_world t2 t3 v v2 a n
    by (simp add: osc_sends_simps chatbox_input_def) (simp add: ascii_def)
qed

text \<open>
  C1 as stated fails when a target language is configured twice: with targets
  \<open>en, ja, en\<close> and the translations \<open>A1\<close>, \<open>B\<close>, \<open>A2\<close>, the dictionary keeps one
  entry for \<open>en\<close>, at its first position with its last value, and the message is
  \<open>A2\<close>, \<open>B\<close>, then the text, not the three values in configured order.
\<close>

theorem output_message_order_counterexample:
  "fst (transcribe_audio repeated_language_config repeated_language_env [[1, 0]]
          (new_translator\<lparr>is_translating := True\<rparr>)) = Some (ascii ''hi'') \<and>
   map (translation_value repeated_language_config repeated_language_env (ascii ''hi''))
     [0..<length (target_languages repeated_language_config)] =
     [ascii ''A1'', ascii ''B'', ascii ''A2''] \<and>
   osc_sends (trace (process_job repeated_language_config repeated_language_env [[1, 0]]
                       new_translator)) =
     [OscSend (ascii ''/chatbox/input'')
        [OscStr (ascii ''A2'' @ [10] @ ascii ''B'' @ [10] @ ascii ''hi''),
         OscBool True, OscBool False]] \<and>
   ascii ''A2'' @ [10] @ ascii ''B'' @ [10] @ ascii ''hi'' \<noteq>
     join [10] ([ascii ''A1'', ascii ''B'', ascii ''A2''] @ [ascii ''hi''])"
proof -
  have e: "stt_result repeated_language_env = SttReturns (Some (ascii ''hi''))"
    "correction_result repeated_language_env = ChatRaises"
    by (simp_all add: repeated_language_env_def)
  have t: "transcription repeated_language_config repeated_language_env [[1, 0]] =
             Some (ascii ''hi'')"
    using transcribe_repeated_language [OF e, of new_translator]
    by (simp add: transcription_def)
  have ne: "ascii ''hi'' \<noteq> []" by (simp add: ascii_def)
  have v: "map (translation_value repeated_language_config repeated_language_env (ascii ''hi''))
     [0..<length (target_languages repeated_language_config)] =
     [ascii ''A1'', ascii ''B'', ascii ''A2'']"
    unfolding translation_values_eq [OF ne]
    by (simp add: reply_text_def repeated_language_config_def
          repeated_language_env_def strip_def isspace_def ascii_def upt_rec)
  have m: "output_message repeated_language_config repeated_language_env (ascii ''hi'') =
             ascii ''A2'' @ [10] @ ascii ''B'' @ [10] @ ascii ''hi''"
    unfolding output_message_eq [OF ne]
    by (simp add: reply_text_def repeated_language_config_def
          repeated_language_env_def strip_def isspace_def ascii_def)
  show ?thesis
    by (simp add: transcribe_audio_frame t v osc_sends_process_job
          osc_sends_dispatch_events [OF ne] m new_translator_def osc_sends_simps
          chatbox_input_def)
qed

text \<open>
  C2, amended. For a non-empty text and every list of target languages: a request is made
  for each language, in order, whatever the other requests answered; changing the answers of the
  requests for one language \<open>l\<close> changes the entry of no other language \<open>k\<close>; a
  language all of whose requests fail has no entry. With pairwise distinct languages of
  which exactly the \<open>j\<close>-th fails, the message sent is every other translation, in
  configured order, then the text.
\<close>

theorem translation_isolated:
  "text \<noteq> [] \<longrightarrow>
     chat_calls (trace (snd (translate_languages cfg replies text 0 langs [] st))) =
       chat_calls (trace st) @
       map (\<lambda>lang. ChatCall (TranslationRequest (model_name cfg) (source_language cfg) lang text))
         langs \<and>
     ((\<forall>j<length langs. langs ! j \<noteq> l \<longrightarrow> replies' j = replies j) \<and> k \<noteq> l \<longrightarrow>
        map_of (fst (translate_languages cfg replies' text 0 langs [] st)) k =
        map_of (fst (translate_languages cfg replies text 0 langs [] st)) k) \<and>
     ((\<forall>j<length langs. langs ! j = l \<longrightarrow>
          fst (translate_text cfg (replies j) text l st) = []) \<longrightarrow>
        map_of (fst (translate_languages cfg replies text 0 langs [] st)) l = None) \<and>
     (distinct (target_languages cfg) \<and> j < length (target_languages cfg) \<and>
      translation_value cfg env text j = [] \<and>
      (\<forall>i<length (target_languages cfg). i \<noteq> j \<longrightarrow> translation_value cfg env text i \<noteq> []) \<longrightarrow>
        osc_sends (trace (translate_and_send cfg env (Some text) st)) =
          osc_sends (trace st) @
          [OscSend chatbox_input
             [OscStr (join [10]
                        (map (translation_value cfg env text)
                           (filter (\<lambda>i. i \<noteq> j) [0..<length (target_languages cfg)])
                         @ [text])),
              OscBool True, OscBool False]])"
proof (intro impI conjI)
  assume ne: "text \<noteq> []"
  show "chat_calls (trace (snd (translate_languages cfg replies text 0 langs [] st))) =
       chat_calls (trace st) @
       map (\<lambda>lang. ChatCall (TranslationRequest (model_name cfg) (source_language cfg) lang text))
         langs"
    by (simp add: translate_languages_frame [OF ne] chat_calls_append
          chat_calls_fanout_events [OF ne])
  {
    assume "(\<forall>j<length langs. langs ! j \<noteq> l \<longrightarrow> replies' j = replies j) \<and> k \<noteq> l"
    then show "map_of (fst (translate_languages cfg replies' text 0 langs [] st)) k =
        map_of (fst (translate_languages cfg replies text 0 langs [] st)) k"
      using translations_of_other [of langs l replies' 0 replies k "[]" "[]"]
      by (simp add: translate_languages_frame [OF ne])
  }
  {
    assume "\<forall>j<length langs. langs ! j = l \<longrightarrow>
          fst (translate_text cfg (replies j) text l st) = []"
    then have "\<forall>j<length langs. langs ! j = l \<longrightarrow> reply_text (replies (0 + j)) = []"
      by (simp add: translation_failed_iff [OF ne])
    then show "map_of (fst (translate_languages cfg replies text 0 langs [] st)) l = None"
      using translations_of_failed [of langs l replies 0 "[]"]
      by (simp add: translate_languages_frame [OF ne])
  }
  {
    assume h: "distinct (target_languages cfg) \<and> j < length (target_languages cfg) \<and>
      translation_value cfg env text j = [] \<and>
      (\<forall>i<length (target_languages cfg). i \<noteq> j \<longrightarrow> translation_value cfg env text i \<noteq> [])"
    then have d: "distinct (target_languages cfg)" by simp
    have f: "filter (\<lambda>t. t \<noteq> [])
            (map (translation_value cfg env text) [0..<length (target_languages cfg)]) =
          map (translation_value cfg env text)
            (filter (\<lambda>i. i \<noteq> j) [0..<length (target_languages cfg)])"
      unfolding filter_map using h by (auto intro!: arg_cong [where f = "map _"] filter_cong)
    have "output_message cfg env text =
            join [10] (filter (\<lambda>t. t \<noteq> [])
              (map (translation_value cfg env text) [0..<length (target_languages cfg)])
               @ [text])"
      by (simp add: output_message_distinct [OF ne d] translation_values_eq [OF ne])
    then have "output_message cfg env text =
            join [10] (map (translation_value cfg env text)
              (filter (\<lambda>i. i \<noteq> j) [0..<length (target_languages cfg)]) @ [text])"
      by (simp only: f)
    then show "osc_sends (trace (translate_and_send cfg env (Some text) st)) =
          osc_sends (trace st) @
          [OscSend chatbox_input
             [OscStr (join [10]
                        (map (translation_value cfg env text)
                           (filter (\<lambda>i. i \<noteq> j) [0..<length (target_languages cfg)])
                         @ [text])),
              OscBool True, OscBool False]]"
      by (simp add: translate_and_send_frame osc_sends_append osc_sends_dispatch_events [OF ne])
  }
qed

theorem translation_isolated_witness:
  "[0x4F60, 0x597D] \<noteq> ([] :: pystr) \<and>
   chat_calls (trace (snd (translate_languages zh_config (translation_result ja_fails_env)
      [0x4F60, 0x597D] 0 (target_languages zh_config) [] new_translator))) =
     [ChatCall (TranslationRequest (ascii ''deepseek-chat'') (ascii ''zh'') (ascii ''en'')
                  [0x4F60, 0x597D]),
      ChatCall (TranslationRequest (ascii ''deepseek-chat'') (ascii ''zh'') (ascii ''ja'')
                  [0x4F60, 0x597D])] \<and>
   ascii ''en'' \<noteq> ascii ''ja'' \<and>
   map_of (fst (translate_languages zh_config (translation_result ja_fails_env)
      [0x4F60, 0x597D] 0 (target_languages zh_config) [] new_translator)) (ascii ''en'') =
   map_of (fst (translate_languages zh_config (translation_result all_ok_env)
      [0x4F60, 0x597D] 0 (target_languages zh_config) [] new_translator)) (ascii ''en'') \<and>
   map_of (fst (translate_languages zh_config (translation_result ja_fails_env)
      [0x4F60, 0x597D] 0 (target_languages zh_config) [] new_translator)) (ascii ''ja'') = None \<and>
   distinct (target_languages zh_config) \<and> 1 < length (target_languages zh_config) \<and>
   translation_value zh_config ja_fails_env [0x4F60, 0x597D] 1 = [] \<and>
   osc_sends (trace (translate_and_send zh_config ja_fails_env (Some [0x4F60, 0x597D])
      new_translator)) =
     [OscSend (ascii ''/chatbox/input'')
        [OscStr (ascii ''Hello'' @ [10] @ [0x4F60, 0x597D]), OscBool True, OscBool False]]"
proof -
  have c: "target_languages zh_config = [ascii ''en'', ascii ''ja'']"
    "model_name zh_config = ascii ''deepseek-chat''" "source_language zh_config = ascii ''zh''"
    by (simp_all add: zh_config_def)
  have a: "ascii ''en'' \<noteq> ascii ''ja''" by (simp add: ascii_def)
  have r: "translation_result ja_fails_env 0 = ChatReturns (ascii ''Hello'')"
    "translation_result ja_fails_env (Suc 0) = ChatRaises"
    "translation_result all_ok_env 0 = ChatReturns (ascii ''Hello'')"
    by (simp_all add: ja_fails_env_def all_ok_env_def)
  have v: "translation_value zh_config ja_fails_env [0x4F60, 0x597D] 0 = ascii ''Hello''"
    "translation_value zh_config ja_fails_env [0x4F60, 0x597D] (Suc 0) = []"
    by (simp_all add: translation_value_def translate_text_def r strip_def isspace_def ascii_def
          logger_def emit_def Let_def)
  have f: "fst (translate_text zh_config ChatRaises [0x4F60, 0x597D] (ascii ''ja'')
                  new_translator) = []"
    by (simp add: translate_text_def logger_def emit_def Let_def)
  have q: "\<forall>j<length [ascii ''en'', ascii ''ja''].
             [ascii ''en'', ascii ''ja''] ! j \<noteq> ascii ''ja'' \<longrightarrow>
             translation_result ja_fails_env j = translation_result all_ok_env j"
    using a by (auto simp: less_Suc_eq r)
  have q2: "\<forall>j<length [ascii ''en'', ascii ''ja''].
             [ascii ''en'', ascii ''ja''] ! j = ascii ''ja'' \<longrightarrow>
             fst (translate_text zh_config (translation_result ja_fails_env j) [0x4F60, 0x597D]
                    (ascii ''ja'') new_translator) = []"
    using a by (auto simp: less_Suc_eq r f)
  have q3: "\<forall>i<length [ascii ''en'', ascii ''ja'']. i \<noteq> 1 \<longrightarrow>
      translation_value zh_config ja_fails_env [0x4F60, 0x597D] i \<noteq> []"
    by (auto simp: less_Suc_eq v) (simp add: ascii_def)
  have n: "trace new_translator = []" by (simp add: new_translator_def)
  show ?thesis
    using translation_isolated
            [of "[0x4F60, 0x597D]" zh_config "translation_result ja_fails_env"
                "target_languages zh_config" new_translator "ascii ''ja''"
                "translation_result ja_fails_env" "ascii ''en''" 1 ja_fails_env]
          translation_isolated
            [of "[0x4F60, 0x597D]" zh_config "translation_result all_ok_env"
                "target_languages zh_config" new_translator "ascii ''ja''"
                "translation_result ja_fails_env" "ascii ''en''" 1 ja_fails_env]
          a q q2 q3 v n
    by (simp add: c chat_calls_simps osc_sends_simps chatbox_input_def upt_rec)
qed

text \<open>
  C2 as stated fails when a target language is configured twice: with targets
  \<open>en, ja, en\<close>, only the request for \<open>ja\<close> failing, the message is \<open>A2\<close> and the
  text; the successful translation \<open>A1\<close> is not in it.
\<close>

theorem translation_isolated_counterexample:
  "map (translation_value repeated_language_config repeated_language_ja_fails_env (ascii ''hi''))
     [0..<length (target_languages repeated_language_config)] =
     [ascii ''A1'', [], ascii ''A2''] \<and>
   osc_sends (trace (translate_and_send repeated_language_config repeated_language_ja_fails_env
                       (Some (ascii ''hi'')) new_translator)) =
     [OscSend (ascii ''/chatbox/input'')
        [OscStr (ascii ''A2'' @ [10] @ ascii ''hi''), OscBool True, OscBool False]] \<and>
   ascii ''A2'' @ [10] @ ascii ''hi'' \<noteq>
     join [10] ([ascii ''A1'', ascii ''A2''] @ [ascii ''hi''])"
proof -
  have ne: "ascii ''hi'' \<noteq> []" by (simp add: ascii_def)
  have v: "map (translation_value repeated_language_config repeated_language_ja_fails_env
                  (ascii ''hi''))
     [0..<length (target_languages repeated_language_config)] =
     [ascii ''A1'', [], ascii ''A2'']"
    unfolding translation_values_eq [OF ne]
    by (simp add: reply_text_def repeated_language_config_def
          repeated_language_ja_fails_env_def strip_def isspace_def ascii_def upt_rec)
  have m: "output_message repeated_language_config repeated_language_ja_fails_env
             (ascii ''hi'') = ascii ''A2'' @ [10] @ ascii ''hi''"
    unfolding output_message_eq [OF ne]
    by (simp add: reply_text_def repeated_language_config_def
          repeated_language_ja_fails_env_def strip_def isspace_def ascii_def)
  show ?thesis
    by (simp add: v translate_and_send_frame osc_sends_append
          osc_sends_dispatch_events [OF ne] m new_translator_def osc_sends_simps
          chatbox_input_def)
qed

text \<open>
  C4. With recordings \<open>jobs\<close> on the queue ahead of the exit signal, the worker's loop
  returns, and its result is that of processing the recordings one after the other in
  queue order, everything behind the signal left on the queue. With no exit signal on the
  queue the loop never returns; once \<open>cleanup\<close> has put the signal, it returns after the
  recordings queued before it. For two recordings, the second is processed from the state
  the first one left, with \<open>is_translating\<close> cleared, and every effect of the first
  precedes every effect of the second.
\<close>

theorem worker_fifo_and_exit:
  "(translation_queue st = map Some jobs @ None # rest \<longrightarrow>
      process_translation_queue cfg envs n st =
        Some ((run_jobs cfg envs n jobs st)\<lparr>translation_queue := rest\<rparr>)) \<and>
   (None \<notin> set (translation_queue st) \<longrightarrow>
      process_translation_queue cfg envs n st = None \<and>
      process_translation_queue cfg envs n (cleanup st) =
        Some ((run_jobs cfg envs n (map the (translation_queue st)) st)
                \<lparr>translation_queue := []\<rparr>)) \<and>
   run_jobs cfg envs n [s1, s2] st =
     process_job cfg (envs (Suc n)) s2 (process_job cfg (envs n) s1 st) \<and>
   \<not> is_translating (process_job cfg (envs n) s1 st) \<and>
   trace (run_jobs cfg envs n [s1, s2] st) =
     trace st @ job_events cfg (envs n) s1 @ job_events cfg (envs (Suc n)) s2"
proof (intro conjI impI)
  assume "translation_queue st = map Some jobs @ None # rest"
  then show "process_translation_queue cfg envs n st =
        Some ((run_jobs cfg envs n jobs st)\<lparr>translation_queue := rest\<rparr>)"
    by (rule worker_runs_jobs)
next
  assume no: "None \<notin> set (translation_queue st)"
  show "process_translation_queue cfg envs n st = None"
  proof (cases "process_translation_queue cfg envs n st")
    case None
    then show ?thesis .
  next
    case (Some st')
    from worker_returns_only_on_signal [OF this] no show ?thesis by simp
  qed
  from no have "map Some (map the (translation_queue st)) = translation_queue st"
    by (rule map_Some_the)
  then have q: "translation_queue (cleanup st) =
                  map Some (map the (translation_queue st)) @ None # []"
    by (simp add: cleanup_def)
  show "process_translation_queue cfg envs n (cleanup st) =
        Some ((run_jobs cfg envs n (map the (translation_queue st)) st)
                \<lparr>translation_queue := []\<rparr>)"
    unfolding worker_runs_jobs [OF q]
    by (simp add: cleanup_def run_jobs_queue_update)
next
  show "run_jobs cfg envs n [s1, s2] st =
     process_job cfg (envs (Suc n)) s2 (process_job cfg (envs n) s1 st)"
    by simp
  show "\<not> is_translating (process_job cfg (envs n) s1 st)"
    by (simp add: process_job_events)
  show "trace (run_jobs cfg envs n [s1, s2] st) =
     trace st @ job_events cfg (envs n) s1 @ job_events cfg (envs (Suc n)) s2"
    by (simp add: process_job_events)
qed

theorem worker_fifo_and_exit_witness:
  "translation_queue (new_translator\<lparr>translation_queue := [Some [[1, 0]], Some [[2, 0]], None]\<rparr>)
     = map Some [[[1, 0]], [[2, 0]]] @ None # [] \<and>
   process_translation_queue default_config (\<lambda>i. quiet_env) 0
     (new_translator\<lparr>translation_queue := [Some [[1, 0]], Some [[2, 0]], None]\<rparr>) =
     Some (new_translator\<lparr>trace :=
       [Log INFO Transcribing, Log WARNING RecordingTooShort,
        Log INFO Transcribing, Log WARNING RecordingTooShort]\<rparr>) \<and>
   None \<notin> set (translation_queue (new_translator\<lparr>translation_queue := [Some [[1, 0]]]\<rparr>)) \<and>
   process_translation_queue default_config (\<lambda>i. quiet_env) 0
     (new_translator\<lparr>translation_queue := [Some [[1, 0]]]\<rparr>) = None \<and>
   process_translation_queue default_config (\<lambda>i. quiet_env) 0
     (cleanup (new_translator\<lparr>translation_queue := [Some [[1, 0]]]\<rparr>)) =
     Some (new_translator\<lparr>trace := [Log INFO Transcribing, Log WARNING RecordingTooShort]\<rparr>)"
proof -
  have j: "process_job default_config quiet_env [[w, 0]] st =
             st\<lparr>is_translating := False,
                trace := trace st @ [Log INFO Transcribing, Log WARNING RecordingTooShort]\<rparr>"
    for w st
    by (simp add: process_job_def transcribe_audio_def translate_and_send_def frombuffer_def
          default_config_def logger_def emit_def Let_def)
  show ?thesis
    using worker_fifo_and_exit
            [of "new_translator\<lparr>translation_queue := [Some [[1, 0]], Some [[2, 0]], None]\<rparr>"
                "[[[1, 0]], [[2, 0]]]" "[]" default_config "\<lambda>i. quiet_env" 0]
          worker_fifo_and_exit
            [of "new_translator\<lparr>translation_queue := [Some [[1, 0]]]\<rparr>"
                "[]" "[]" default_config "\<lambda>i. quiet_env" 0]
    by (simp add: j new_translator_def)
qed

end
